theory Spec2Isabelle
  imports Main "HOL-Library.Sublist"
begin

section \<open>Python values, exceptions and dictionary access\<close>

text \<open>
  The values that travel through the program are JSON documents (the reply of the
  adverse-event API, the arguments of a tool call, the result dictionaries handed to
  \<open>json.dumps\<close>). A dictionary is an association list read with \<open>map_of\<close>. Floating
  point numbers do not occur in any property below and are left out.
\<close>

datatype json =
    JNull
  | JBool bool
  | JNum int
  | JStr string
  | JArr "json list"
  | JObj "(string \<times> json) list"

text \<open>
  \<open>repr\<close> of a string: between apostrophes, or between double quotes when the string
  holds an apostrophe and no double quote; the backslash and the chosen quote are escaped,
  tab, line feed and carriage return are written as a backslash and the letter t, n or r,
  the other control characters as a backslash, the letter x and two hexadecimal digits.
  Bytes above 127 are parts of printable characters and stay.
\<close>

definition hex_digit :: "nat \<Rightarrow> char" where
  "hex_digit d = ''0123456789abcdef'' ! d"

definition repr_char :: "char \<Rightarrow> char \<Rightarrow> string" where
  "repr_char q c =
     (if c = q \<or> c = CHR 0x5C then [CHR 0x5C, c]
      else if c = CHR 0x09 then [CHR 0x5C, CHR ''t'']
      else if c = CHR 0x0A then [CHR 0x5C, CHR ''n'']
      else if c = CHR 0x0D then [CHR 0x5C, CHR ''r'']
      else if (of_char c :: nat) < 32 \<or> c = CHR 0x7F
      then [CHR 0x5C, CHR ''x'', hex_digit (of_char c div 16), hex_digit (of_char c mod 16)]
      else [c])"

definition repr_str :: "string \<Rightarrow> string" where
  "repr_str s =
     (let q = (if CHR 0x27 \<in> set s \<and> CHR 0x22 \<notin> set s then CHR 0x22 else CHR 0x27)
      in q # concat (map (repr_char q) s) @ [q])"

text \<open>Exceptions are values; \<open>str_exn\<close> is Python's \<open>str(e)\<close>: the message, and for
  a \<open>KeyError\<close> the \<open>repr\<close> of the missing key.\<close>

datatype exn =
    ValueError string
  | KeyError string
  | TypeError string
  | AttributeError string
  | FileNotFoundError string
  | OtherError string

fun str_exn :: "exn \<Rightarrow> string" where
  "str_exn (ValueError m) = m"
| "str_exn (KeyError k) = repr_str k"
| "str_exn (TypeError m) = m"
| "str_exn (AttributeError m) = m"
| "str_exn (FileNotFoundError m) = m"
| "str_exn (OtherError m) = m"

definition bind_exn :: "exn + 'a \<Rightarrow> ('a \<Rightarrow> exn + 'b) \<Rightarrow> exn + 'b" where
  "bind_exn m f = (case m of Inl e \<Rightarrow> Inl e | Inr x \<Rightarrow> f x)"

text \<open>The name of a value's type, as the interpreter's error messages print it (the
  messages below are those of Python 3.11 and 3.12).\<close>

fun type_name :: "json \<Rightarrow> string" where
  "type_name JNull = ''NoneType''"
| "type_name (JBool b) = ''bool''"
| "type_name (JNum n) = ''int''"
| "type_name (JStr s) = ''str''"
| "type_name (JArr xs) = ''list''"
| "type_name (JObj kv) = ''dict''"

definition no_attribute :: "json \<Rightarrow> string \<Rightarrow> exn" where
  "no_attribute v a =
     AttributeError ([CHR 0x27] @ type_name v @ [CHR 0x27] @ '' object has no attribute '' @
                     [CHR 0x27] @ a @ [CHR 0x27])"

text \<open>\<open>d.get(k, default)\<close>: only a dictionary has the method.\<close>

fun py_get :: "json \<Rightarrow> string \<Rightarrow> json \<Rightarrow> exn + json" where
  "py_get (JObj kv) k dflt = Inr (case map_of kv k of Some v \<Rightarrow> v | None \<Rightarrow> dflt)"
| "py_get v k dflt = Inl (no_attribute v ''get'')"

text \<open>Substring test on strings, Python's \<open>sub in s\<close>.\<close>

fun str_contains :: "string \<Rightarrow> string \<Rightarrow> bool" where
  "str_contains sub [] = (sub = [])"
| "str_contains sub (c # cs) = (prefix sub (c # cs) \<or> str_contains sub cs)"

text \<open>\<open>k in x\<close> for a string \<open>k\<close>: key membership in a dictionary, element membership
  in a list, substring in a string, \<open>TypeError\<close> otherwise.\<close>

fun py_in :: "string \<Rightarrow> json \<Rightarrow> exn + bool" where
  "py_in k (JObj kv) = Inr (map_of kv k \<noteq> None)"
| "py_in k (JArr xs) = Inr (JStr k \<in> set xs)"
| "py_in k (JStr s) = Inr (str_contains k s)"
| "py_in k v =
     Inl (TypeError (''argument of type '' @ [CHR 0x27] @ type_name v @ [CHR 0x27] @
                     '' is not iterable''))"

text \<open>\<open>x[k]\<close> for a string \<open>k\<close>.\<close>

fun py_getitem :: "json \<Rightarrow> string \<Rightarrow> exn + json" where
  "py_getitem (JObj kv) k = (case map_of kv k of Some v \<Rightarrow> Inr v | None \<Rightarrow> Inl (KeyError k))"
| "py_getitem (JArr xs) k = Inl (TypeError ''list indices must be integers or slices, not str'')"
| "py_getitem (JStr s) k =
     Inl (TypeError (''string indices must be integers, not '' @ [CHR 0x27] @ ''str'' @ [CHR 0x27]))"
| "py_getitem v k =
     Inl (TypeError ([CHR 0x27] @ type_name v @ [CHR 0x27] @ '' object is not subscriptable''))"

text \<open>Iteration: a list yields its elements, a dictionary its keys, a string its
  characters; nothing else is iterable.\<close>

fun py_iter :: "json \<Rightarrow> exn + json list" where
  "py_iter (JArr xs) = Inr xs"
| "py_iter (JObj kv) = Inr (map JStr (remdups (map fst kv)))"
| "py_iter (JStr s) = Inr (map (\<lambda>c. JStr [c]) s)"
| "py_iter v =
     Inl (TypeError ([CHR 0x27] @ type_name v @ [CHR 0x27] @ '' object is not iterable''))"

text \<open>\<open>s.upper()\<close>, on the ASCII letters.\<close>

definition upper_char :: "char \<Rightarrow> char" where
  "upper_char c =
     (case map_of (zip ''abcdefghijklmnopqrstuvwxyz'' ''ABCDEFGHIJKLMNOPQRSTUVWXYZ'') c of
        Some u \<Rightarrow> u
      | None \<Rightarrow> c)"

fun py_upper :: "json \<Rightarrow> exn + string" where
  "py_upper (JStr s) = Inr (map upper_char s)"
| "py_upper v = Inl (no_attribute v ''upper'')"

text \<open>\<open>str(n)\<close> for an integer, as the URL's f-string formats \<open>limit\<close>.\<close>

definition digit_char :: "nat \<Rightarrow> char" where
  "digit_char d = ''0123456789'' ! d"

function str_nat :: "nat \<Rightarrow> string" where
  "str_nat n = (if n < 10 then [digit_char n] else str_nat (n div 10) @ [digit_char (n mod 10)])"
  by pat_completeness auto
termination
  by (relation "measure id") auto

declare str_nat.simps [simp del]

definition str_int :: "int \<Rightarrow> string" where
  "str_int i = (if i < 0 then CHR ''-'' # str_nat (nat (- i)) else str_nat (nat i))"

section \<open>The adverse-event lookup (\<open>tools/fda_tool.py\<close>)\<close>

text \<open>
  The HTTP request and the decoding of its body happen outside the program: the function
  is given \<open>requests_get_json\<close>, which maps a URL to what
  \<open>requests.get(url).json()\<close> returns or raises.
\<close>

definition fda_url :: "string \<Rightarrow> int \<Rightarrow> string" where
  "fda_url drug_name limit =
     ''https://api.fda.gov/drug/event.json?'' @
     ''search=patient.drug.medicinalproduct:'' @ drug_name @
     ''&limit='' @ str_int limit @ ''&sort=receivedate:desc''"

definition not_available :: json where
  "not_available = JStr ''N/A''"

text \<open>The loop over \<open>result["patient"]["drug"]\<close>; \<open>names\<close> is the list \<open>drug_names\<close>
  built so far.\<close>

fun drug_loop :: "json list \<Rightarrow> json list \<Rightarrow> exn + json list" where
  "drug_loop [] names = Inr names"
| "drug_loop (drug # rest) names =
     bind_exn (py_get drug ''medicinalproduct'' not_available) (\<lambda>name.
     bind_exn (py_upper name) (\<lambda>u.
       drug_loop rest (if str_contains ''TRAMADOL'' u then names @ [name] else names)))"

text \<open>The loop over \<open>result["patient"]["reaction"]\<close>, building \<open>reactions\<close> and
  \<open>outcomes\<close> together.\<close>

fun reaction_loop :: "json list \<Rightarrow> json list \<times> json list \<Rightarrow> exn + json list \<times> json list" where
  "reaction_loop [] acc = Inr acc"
| "reaction_loop (reaction # rest) (rs, os) =
     bind_exn (py_get reaction ''reactionmeddrapt'' not_available) (\<lambda>r.
     bind_exn (py_get reaction ''reactionoutcome'' not_available) (\<lambda>out.
       reaction_loop rest (rs @ [r], os @ [out])))"

text \<open>The test \<open>"patient" in result and key in result["patient"]\<close>, short-circuiting.\<close>

definition has_patient_key :: "json \<Rightarrow> string \<Rightarrow> exn + bool" where
  "has_patient_key result key =
     bind_exn (py_in ''patient'' result) (\<lambda>b.
       if b then bind_exn (py_getitem result ''patient'') (\<lambda>p. py_in key p)
       else Inr False)"

definition patient_items :: "json \<Rightarrow> string \<Rightarrow> exn + json list" where
  "patient_items result key =
     bind_exn (py_getitem result ''patient'') (\<lambda>p.
     bind_exn (py_getitem p key) py_iter)"

text \<open>The body of the loop over the results: one dictionary per result.\<close>

definition extract_event :: "json \<Rightarrow> exn + json" where
  "extract_event result =
     bind_exn (py_get result ''receivedate'' not_available) (\<lambda>receivedate.
     bind_exn (py_get result ''safetyreportid'' not_available) (\<lambda>safetyreportid.
     bind_exn (has_patient_key result ''drug'') (\<lambda>has_drug.
     bind_exn (if has_drug
               then bind_exn (patient_items result ''drug'') (\<lambda>ds. drug_loop ds [])
               else Inr []) (\<lambda>drug_names.
     bind_exn (has_patient_key result ''reaction'') (\<lambda>has_reaction.
     bind_exn (if has_reaction
               then bind_exn (patient_items result ''reaction'') (\<lambda>rs. reaction_loop rs ([], []))
               else Inr ([], [])) (\<lambda>(reactions, outcomes).
       Inr (JObj [(''receivedate'', receivedate),
                  (''safetyreportid'', safetyreportid),
                  (''drug_names'', JArr drug_names),
                  (''reactions'', JArr reactions),
                  (''outcomes'', JArr outcomes)])))))))"

fun result_loop :: "json list \<Rightarrow> json list \<Rightarrow> exn + json list" where
  "result_loop [] useful_data = Inr useful_data"
| "result_loop (result # rest) useful_data =
     bind_exn (extract_event result) (\<lambda>ev. result_loop rest (useful_data @ [ev]))"

definition get_adverse_events ::
  "(string \<Rightarrow> exn + json) \<Rightarrow> string \<Rightarrow> int \<Rightarrow> exn + json list" where
  "get_adverse_events requests_get_json drug_name limit =
     bind_exn (requests_get_json (fda_url drug_name limit)) (\<lambda>response.
     bind_exn (py_get response ''results'' (JArr [])) (\<lambda>results.
     bind_exn (py_iter results) (\<lambda>rs. result_loop rs [])))"

section \<open>Messages, tool calls and the objects the agent holds\<close>

text \<open>A tool invocation request, as the model returns it: a dictionary with the keys
  \<open>name\<close>, \<open>args\<close> and \<open>id\<close>.\<close>

record tool_call =
  name :: string
  args :: json
  call_id :: string

record ai_message =
  content :: string
  tool_calls :: "tool_call list"

datatype message =
    SystemMessage string
  | HumanMessage string
  | AIMessage ai_message
  | ToolMessage string string

fun message_content :: "message \<Rightarrow> string" where
  "message_content (SystemMessage c) = c"
| "message_content (HumanMessage c) = c"
| "message_content (AIMessage r) = content r"
| "message_content (ToolMessage c i) = c"

datatype tool = FdaAdverseEventsTool | Neo4jQueryTool | PdfSearchTool

fun tool_name :: "tool \<Rightarrow> string" where
  "tool_name FdaAdverseEventsTool = ''fda_adverse_events_tool''"
| "tool_name Neo4jQueryTool = ''neo4j_query_tool''"
| "tool_name PdfSearchTool = ''pdf_search_tool''"

text \<open>Handles of the external libraries. Only their presence matters to the program.\<close>

datatype neo4j_driver = Neo4jDriver
datatype neo4j_graph = Neo4jGraph
datatype graph_cypher_qa_chain = GraphCypherQAChain
datatype faiss = FAISS

record ChatOpenAI =
  model_name :: string
  temperature :: int
  api_key :: "string option"

record OpenAIEmbeddings =
  embedding_model :: string
  embedding_api_key :: "string option"

record document =
  page_content :: string
  metadata :: json

record Neo4jTool =
  URI :: "string option"
  AUTH :: "string option \<times> string option"
  driver :: "neo4j_driver option"
  graph :: "neo4j_graph option"
  qa_chain :: "graph_cypher_qa_chain option"

record PDFTool =
  vector_store :: "faiss option"
  embeddings :: "OpenAIEmbeddings option"
  llm :: "ChatOpenAI option"

text \<open>The module's global variables, with the process environment that
  \<open>initialize_agent_with_config\<close> writes and the tool constructors read.\<close>

record agent_state =
  environ :: "string \<Rightarrow> string option"
  neo4j_tool :: "Neo4jTool option"
  pdf_tool :: "PDFTool option"
  model :: "ChatOpenAI option"
  tools :: "tool list"
  tools_by_name :: "(string \<times> tool) list"
  initialized :: bool

text \<open>
  Everything outside the repository is a field of \<open>env\<close>: the HTTP client, the chat
  model, the graph database, the vector store, the file system, the schema validation
  that \<open>tool.invoke\<close> runs on the arguments before it calls the function, and the two
  formatters \<open>json.dumps\<close> and \<open>repr\<close>. Each is a function of its arguments, so a run
  is replayed exactly by the same \<open>env\<close>; a call that can raise returns a sum.
\<close>

record env =
  requests_get_json :: "string \<Rightarrow> exn + json"
  json_dumps :: "json \<Rightarrow> exn + string"
  py_repr :: "json \<Rightarrow> string"
  validate_fda_args :: "json \<Rightarrow> exn + string \<times> int"
  validate_question_args :: "json \<Rightarrow> exn + string"
  chat_invoke :: "ChatOpenAI \<Rightarrow> tool list \<Rightarrow> message list \<Rightarrow> exn + ai_message"
  path_exists :: "string \<Rightarrow> bool"
  abs_pdf_path :: string
  rel_pdf_path :: string
  build_vector_store :: "string \<Rightarrow> exn + faiss"
  similarity_search :: "faiss \<Rightarrow> string \<Rightarrow> exn + document list"
  rag_invoke :: "ChatOpenAI \<Rightarrow> string \<Rightarrow> string \<Rightarrow> exn + string"
  graph_database_driver :: "string option \<Rightarrow> string option \<times> string option \<Rightarrow> exn + neo4j_driver"
  verify_connectivity :: "neo4j_driver \<Rightarrow> exn + unit"
  neo4j_graph_connect :: "string option \<Rightarrow> string option \<Rightarrow> string option \<Rightarrow> exn + neo4j_graph"
  chain_from_llm :: "ChatOpenAI \<Rightarrow> neo4j_graph \<Rightarrow> exn + graph_cypher_qa_chain"
  chain_invoke :: "graph_cypher_qa_chain \<Rightarrow> string \<Rightarrow> exn + json"
  chat_openai_error :: "string \<Rightarrow> int \<Rightarrow> string option \<Rightarrow> exn option"
  openai_embeddings_error :: "string \<Rightarrow> string option \<Rightarrow> exn option"

text \<open>
  The last two fields say whether the constructors \<open>ChatOpenAI(...)\<close> and
  \<open>OpenAIEmbeddings(...)\<close> of the client library raise for the given model name,
  temperature and key; when they do not, the object is the record of its arguments.
\<close>

definition new_ChatOpenAI :: "env \<Rightarrow> string \<Rightarrow> int \<Rightarrow> string option \<Rightarrow> exn + ChatOpenAI" where
  "new_ChatOpenAI E m t k =
     (case chat_openai_error E m t k of
        Some e \<Rightarrow> Inl e
      | None \<Rightarrow> Inr \<lparr>model_name = m, temperature = t, api_key = k\<rparr>)"

definition new_OpenAIEmbeddings :: "env \<Rightarrow> string \<Rightarrow> string option \<Rightarrow> exn + OpenAIEmbeddings" where
  "new_OpenAIEmbeddings E m k =
     (case openai_embeddings_error E m k of
        Some e \<Rightarrow> Inl e
      | None \<Rightarrow> Inr \<lparr>embedding_model = m, embedding_api_key = k\<rparr>)"

text \<open>Truthiness of an optional string: \<open>None\<close> and the empty string are false.\<close>

fun truthy :: "string option \<Rightarrow> bool" where
  "truthy None = False"
| "truthy (Some s) = (s \<noteq> [])"

fun str_of :: "string option \<Rightarrow> string" where
  "str_of None = []"
| "str_of (Some s) = s"

definition nl :: string where
  "nl = [CHR 0x0A]"

fun py_join :: "string \<Rightarrow> string list \<Rightarrow> string" where
  "py_join sep [] = []"
| "py_join sep [x] = x"
| "py_join sep (x # y # ys) = x @ sep @ py_join sep (y # ys)"

text \<open>\<open>str(x)\<close>: a string is itself, anything else is printed by \<open>repr\<close>.\<close>

fun py_str :: "env \<Rightarrow> json \<Rightarrow> string" where
  "py_str E (JStr s) = s"
| "py_str E v = py_repr E v"

section \<open>The graph tool (\<open>tools/neo4j_tool.py\<close>)\<close>

definition Neo4jTool_init :: "(string \<Rightarrow> string option) \<Rightarrow> Neo4jTool" where
  "Neo4jTool_init getenv =
     \<lparr>URI = getenv ''NEO4J_URI'',
      AUTH = (getenv ''NEO4J_USERNAME'', getenv ''NEO4J_PASSWORD''),
      driver = None, graph = None, qa_chain = None\<rparr>"

text \<open>\<open>connect\<close> catches every exception and answers with a boolean; the driver is
  stored before connectivity is verified.\<close>

definition connect :: "env \<Rightarrow> Neo4jTool \<Rightarrow> Neo4jTool \<times> bool" where
  "connect E self =
     (case graph_database_driver E (URI self) (AUTH self) of
        Inl e \<Rightarrow> (self, False)
      | Inr d \<Rightarrow>
          (let self1 = self\<lparr>driver := Some d\<rparr> in
           case verify_connectivity E d of
             Inl e \<Rightarrow> (self1, False)
           | Inr u \<Rightarrow>
               (case neo4j_graph_connect E (URI self1) (fst (AUTH self1)) (snd (AUTH self1)) of
                  Inl e \<Rightarrow> (self1, False)
                | Inr g \<Rightarrow> (self1\<lparr>graph := Some g\<rparr>, True))))"

definition initialize_qa_chain ::
  "env \<Rightarrow> (string \<Rightarrow> string option) \<Rightarrow> Neo4jTool \<Rightarrow> string option \<Rightarrow> Neo4jTool \<times> bool" where
  "initialize_qa_chain E getenv self openai_api_key =
     (case graph self of
        None \<Rightarrow> (self, False)
      | Some g \<Rightarrow>
          (let key = (if truthy openai_api_key then openai_api_key else getenv ''OPENAI_API_KEY'') in
           if \<not> truthy key then (self, False)
           else (case bind_exn (new_ChatOpenAI E ''gpt-3.5-turbo'' 0 key)
                        (\<lambda>llm. chain_from_llm E llm g) of
                   Inl e \<Rightarrow> (self, False)
                 | Inr c \<Rightarrow> (self\<lparr>qa_chain := Some c\<rparr>, True))))"

text \<open>\<open>ask_question\<close> never raises: it answers with the chain's result or with a text.\<close>

definition ask_question :: "env \<Rightarrow> Neo4jTool \<Rightarrow> string \<Rightarrow> json" where
  "ask_question E self question =
     (case qa_chain self of
        None \<Rightarrow> JStr ''Error: QA chain not initialized''
      | Some c \<Rightarrow>
          (case chain_invoke E c question of
             Inr result \<Rightarrow> result
           | Inl e \<Rightarrow> JStr (''Error: '' @ str_exn e)))"

section \<open>The document tool (\<open>tools/pdf_rag_tool.py\<close>)\<close>

text \<open>\<open>__init__\<close> with \<open>_initialize_components\<close>: the two client objects are
  constructed outside any handler, so the constructor raises when one of them does.\<close>

definition PDFTool_init :: "env \<Rightarrow> (string \<Rightarrow> string option) \<Rightarrow> exn + PDFTool" where
  "PDFTool_init E getenv =
     bind_exn (new_OpenAIEmbeddings E ''text-embedding-3-large'' (getenv ''OPENAI_API_KEY''))
       (\<lambda>emb.
     bind_exn (new_ChatOpenAI E ''gpt-4'' 0 (getenv ''OPENAI_API_KEY'')) (\<lambda>m.
       Inr \<lparr>vector_store = None, embeddings = Some emb, llm = Some m\<rparr>))"

text \<open>\<open>create_vector_store\<close> prints and re-raises whatever loading, splitting or
  indexing raises.\<close>

definition create_vector_store :: "env \<Rightarrow> PDFTool \<Rightarrow> string \<Rightarrow> exn + PDFTool" where
  "create_vector_store E self pdf_path =
     (case build_vector_store E pdf_path of
        Inl e \<Rightarrow> Inl e
      | Inr vs \<Rightarrow> Inr (self\<lparr>vector_store := Some vs\<rparr>))"

definition search_text :: "env \<Rightarrow> PDFTool \<Rightarrow> string \<Rightarrow> exn + document list \<times> string" where
  "search_text E self question =
     (case vector_store self of
        None \<Rightarrow> Inl (ValueError ''Vector store not initialized. Call create_vector_store() first.'')
      | Some vs \<Rightarrow>
          (case llm self of
             None \<Rightarrow> Inl (ValueError ''LLM not initialized.'')
           | Some m \<Rightarrow>
               bind_exn (similarity_search E vs question) (\<lambda>retrieved_docs.
               bind_exn (rag_invoke E m (py_join (nl @ nl) (map page_content retrieved_docs)) question)
                 (\<lambda>answer. Inr (retrieved_docs, answer)))))"

section \<open>The three tools and the setup (\<open>agent/agent.py\<close>)\<close>

definition fda_adverse_events_tool :: "env \<Rightarrow> string \<Rightarrow> int \<Rightarrow> string" where
  "fda_adverse_events_tool E drug_name limit =
     (case bind_exn (get_adverse_events (requests_get_json E) drug_name limit)
             (\<lambda>results. json_dumps E (JArr results)) of
        Inr s \<Rightarrow> s
      | Inl e \<Rightarrow> ''Error retrieving FDA data: '' @ str_exn e)"

text \<open>\<open>ask_question\<close> and \<open>str\<close> do not raise, so the handler of
  \<open>neo4j_query_tool\<close> has nothing to catch.\<close>

definition neo4j_query_tool :: "env \<Rightarrow> agent_state \<Rightarrow> string \<Rightarrow> string" where
  "neo4j_query_tool E st question =
     (case neo4j_tool st of
        None \<Rightarrow> ''Error: Neo4j tool not initialized''
      | Some t \<Rightarrow> py_str E (ask_question E t question))"

definition serializable_doc :: "document \<Rightarrow> json" where
  "serializable_doc doc =
     JObj [(''page_content'', JStr (page_content doc)), (''metadata'', metadata doc)]"

definition pdf_search_tool :: "env \<Rightarrow> agent_state \<Rightarrow> string \<Rightarrow> string" where
  "pdf_search_tool E st question =
     (case pdf_tool st of
        None \<Rightarrow> ''Error: PDF tool not initialized. Please check the initialization logs.''
      | Some t \<Rightarrow>
          if vector_store t = None
          then ''Error: PDF vector store not initialized. The PDF file may not have been loaded successfully during initialization.''
          else (case bind_exn (search_text E t question) (\<lambda>(docs, answer).
                       json_dumps E (JObj [(''retrieved_documents'', JArr (map serializable_doc docs)),
                                           (''answer'', JStr answer),
                                           (''total_documents'', JNum (int (length docs)))])) of
                  Inr s \<Rightarrow> s
                | Inl e \<Rightarrow> ''Error searching PDF: '' @ str_exn e))"

definition possible_paths :: "env \<Rightarrow> string list" where
  "possible_paths E = [''./tools/pdf_data/report_2023_2024.pdf'', abs_pdf_path E, rel_pdf_path E]"

text \<open>The first \<open>try\<close> block of the setup: the vector store, or the exception that the
  block catches and prints.\<close>

definition init_vector_store :: "env \<Rightarrow> PDFTool \<Rightarrow> exn + PDFTool" where
  "init_vector_store E t =
     (case find (path_exists E) (possible_paths E) of
        None \<Rightarrow> Inl (FileNotFoundError ''PDF file not found in any expected location'')
      | Some pdf_path \<Rightarrow> create_vector_store E t pdf_path)"

text \<open>
  A statement of the setup that raises leaves the function with the globals as they are
  at that point: the result is the exception, if any, with the state reached.
\<close>

definition and_then ::
  "exn option \<times> agent_state \<Rightarrow> (agent_state \<Rightarrow> exn option \<times> agent_state) \<Rightarrow>
   exn option \<times> agent_state" where
  "and_then r f = (case r of (Some e, st) \<Rightarrow> (Some e, st) | (None, st) \<Rightarrow> f st)"

text \<open>\<open>os.environ[key] = value\<close> raises \<open>ValueError\<close> when the value holds a NUL
  character; the keys written here are fixed and legal.\<close>

definition setenv :: "agent_state \<Rightarrow> string \<Rightarrow> string \<Rightarrow> exn option \<times> agent_state" where
  "setenv st key v =
     (if CHR 0x00 \<in> set v then (Some (ValueError ''embedded null byte''), st)
      else (None, st\<lparr>environ := (environ st)(key \<mapsto> v)\<rparr>))"

text \<open>The environment after the four assignments, when none of them raises.\<close>

definition configured_environ ::
  "(string \<Rightarrow> string option) \<Rightarrow> string \<Rightarrow> string \<Rightarrow> string \<Rightarrow> string \<Rightarrow> string \<Rightarrow> string option" where
  "configured_environ old openai_api_key neo4j_uri neo4j_username neo4j_password =
     old(''OPENAI_API_KEY'' \<mapsto> openai_api_key, ''NEO4J_URI'' \<mapsto> neo4j_uri,
         ''NEO4J_USERNAME'' \<mapsto> neo4j_username, ''NEO4J_PASSWORD'' \<mapsto> neo4j_password)"

text \<open>
  \<open>initialize_agent_with_config\<close>. The assignments to \<open>os.environ\<close>, the constructor
  \<open>PDFTool()\<close> and the constructor of the model stand outside every \<open>try\<close>; the
  constructor \<open>Neo4jTool()\<close> only reads the environment and cannot raise. The two tool
  objects are changed in place after the globals were assigned. The print statements are
  left out.
\<close>

definition initialize_agent_with_config ::
  "env \<Rightarrow> agent_state \<Rightarrow> string \<Rightarrow> string \<Rightarrow> string \<Rightarrow> string \<Rightarrow> exn option \<times> agent_state" where
  "initialize_agent_with_config E st0 openai_api_key neo4j_uri neo4j_username neo4j_password =
     (if initialized st0 then (None, st0)
      else
        and_then (setenv st0 ''OPENAI_API_KEY'' openai_api_key) (\<lambda>st1.
        and_then (setenv st1 ''NEO4J_URI'' neo4j_uri) (\<lambda>st2.
        and_then (setenv st2 ''NEO4J_USERNAME'' neo4j_username) (\<lambda>st3.
        and_then (setenv st3 ''NEO4J_PASSWORD'' neo4j_password) (\<lambda>st4.
          (let n0 = Neo4jTool_init (environ st4);
               st5 = st4\<lparr>neo4j_tool := Some n0\<rparr>
           in case PDFTool_init E (environ st5) of
                Inl e \<Rightarrow> (Some e, st5)
              | Inr p0 \<Rightarrow>
                  (let p1 = (case init_vector_store E p0 of Inr p \<Rightarrow> p | Inl e \<Rightarrow> p0);
                       n1 = fst (connect E n0);
                       n2 = fst (initialize_qa_chain E (environ st5) n1 None);
                       st6 = st5\<lparr>neo4j_tool := Some n2, pdf_tool := Some p1\<rparr>;
                       ts = [FdaAdverseEventsTool, Neo4jQueryTool, PdfSearchTool]
                   in case new_ChatOpenAI E ''gpt-4'' 0 (Some openai_api_key) of
                        Inl e \<Rightarrow> (Some e, st6)
                      | Inr m \<Rightarrow>
                          (None, st6\<lparr>model := Some m,
                                      tools := ts,
                                      tools_by_name := map (\<lambda>t. (tool_name t, t)) ts,
                                      initialized := True\<rparr>))))))))"

section \<open>The agent loop\<close>

definition system_prompt :: string where
  "system_prompt = py_join nl
     [''You are a helpful AI assistant with access to three specialized tools:'',
      [],
      ''1. FDA Adverse Events Tool: Get adverse events data for drugs from the FDA database'',
      ''2. Neo4j Knowledge Graph Tool: Query a pharmaceutical knowledge graph with natural language'',
      ''3. PDF Search Tool: Search and answer questions about a pharmaceutical company report'',
      [],
      ''When a user asks a question, think about which tool(s) would be most helpful to answer it.'',
      ''You can use multiple tools if needed to provide a comprehensive answer.'',
      [],
      ''Always provide clear, helpful responses and explain what information you found.'']"

definition call_model :: "env \<Rightarrow> agent_state \<Rightarrow> message list \<Rightarrow> exn + ai_message" where
  "call_model E st messages =
     (case model st of
        None \<Rightarrow> Inl (ValueError ''Model not initialized. Call initialize_agent_with_config() first.'')
      | Some m \<Rightarrow> chat_invoke E m (tools st) (SystemMessage system_prompt # messages))"

text \<open>\<open>tool.invoke(args)\<close>: the library validates the arguments against the schema of
  the function's signature, which may raise, and then calls the function.\<close>

fun tool_invoke :: "env \<Rightarrow> agent_state \<Rightarrow> tool \<Rightarrow> json \<Rightarrow> exn + string" where
  "tool_invoke E st FdaAdverseEventsTool a =
     bind_exn (validate_fda_args E a) (\<lambda>(drug_name, limit). Inr (fda_adverse_events_tool E drug_name limit))"
| "tool_invoke E st Neo4jQueryTool a =
     bind_exn (validate_question_args E a) (\<lambda>question. Inr (neo4j_query_tool E st question))"
| "tool_invoke E st PdfSearchTool a =
     bind_exn (validate_question_args E a) (\<lambda>question. Inr (pdf_search_tool E st question))"

definition call_tool :: "env \<Rightarrow> agent_state \<Rightarrow> tool_call \<Rightarrow> exn + message" where
  "call_tool E st tc =
     (if tools_by_name st = []
      then Inl (ValueError ''Tools not initialized. Call initialize_agent_with_config() first.'')
      else (case map_of (tools_by_name st) (name tc) of
              None \<Rightarrow> Inl (KeyError (name tc))
            | Some t \<Rightarrow>
                bind_exn (tool_invoke E st t (args tc)) (\<lambda>observation.
                  Inr (ToolMessage observation (call_id tc)))))"

text \<open>\<open>[fut.result() for fut in tool_result_futures]\<close>: the results in request order, or
  the first exception.\<close>

fun future_results :: "(exn + 'a) list \<Rightarrow> exn + 'a list" where
  "future_results [] = Inr []"
| "future_results (Inl e # fs) = Inl e"
| "future_results (Inr x # fs) = bind_exn (future_results fs) (\<lambda>xs. Inr (x # xs))"

text \<open>\<open>add_messages\<close> of the framework merges by message identifier; the messages of one
  turn have fresh identifiers, for which it appends.\<close>

definition add_messages :: "message list \<Rightarrow> message list \<Rightarrow> message list" where
  "add_messages left right = left @ right"

text \<open>
  A run of the entrypoint records every task it starts, with the task's input and its
  result: the invocations of the model and of the tools, in order. All tasks of a batch are
  started before the first result is read.
\<close>

datatype task_event =
    CallModelTask "message list" "exn + ai_message"
  | CallToolTask tool_call "exn + message"

record agent_run =
  outcome :: "exn + ai_message"
  history :: "message list"
  trace :: "task_event list"

text \<open>
  One pass through the body of the \<open>while True\<close> loop of \<open>agent\<close>, from the loop's
  variables \<open>messages\<close> and \<open>llm_response\<close>: either the run ends (\<open>Inl\<close>: the
  \<open>break\<close> and the \<open>return\<close> after it, or an exception leaving the function) or the
  loop goes round with new variables (\<open>Inr\<close>).
\<close>

definition agent_round ::
  "env \<Rightarrow> agent_state \<Rightarrow> message list \<Rightarrow> ai_message \<Rightarrow> task_event list \<Rightarrow>
   agent_run + message list \<times> ai_message \<times> task_event list" where
  "agent_round E st messages llm_response tr =
     (if tool_calls llm_response = []
      then Inl \<lparr>outcome = Inr llm_response, history = messages, trace = tr\<rparr>
      else
        (let tool_result_futures = map (call_tool E st) (tool_calls llm_response);
             tr1 = tr @ map2 CallToolTask (tool_calls llm_response) tool_result_futures
         in case future_results tool_result_futures of
              Inl e \<Rightarrow> Inl \<lparr>outcome = Inl e, history = messages, trace = tr1\<rparr>
            | Inr tool_results \<Rightarrow>
                (let messages1 = add_messages messages (AIMessage llm_response # tool_results);
                     next_response = call_model E st messages1;
                     tr2 = tr1 @ [CallModelTask messages1 next_response]
                 in case next_response of
                      Inl e \<Rightarrow> Inl \<lparr>outcome = Inl e, history = messages1, trace = tr2\<rparr>
                    | Inr r \<Rightarrow> Inr (messages1, r, tr2))))"

text \<open>The loop has no bound on its rounds: a run that never ends is \<open>None\<close>.\<close>

partial_function (option) agent_loop ::
  "env \<Rightarrow> agent_state \<Rightarrow> message list \<Rightarrow> ai_message \<Rightarrow> task_event list \<Rightarrow> agent_run option" where
  "agent_loop E st messages llm_response tr =
     (case agent_round E st messages llm_response tr of
        Inl run \<Rightarrow> Some run
      | Inr (messages1, r, tr2) \<Rightarrow> agent_loop E st messages1 r tr2)"

declare agent_loop.simps [code]

definition agent :: "env \<Rightarrow> agent_state \<Rightarrow> message list \<Rightarrow> agent_run option" where
  "agent E st messages =
     (let first_response = call_model E st messages;
          tr = [CallModelTask messages first_response]
      in case first_response of
           Inl e \<Rightarrow> Some \<lparr>outcome = Inl e, history = messages, trace = tr\<rparr>
         | Inr r \<Rightarrow> agent_loop E st messages r tr)"

text \<open>The loop's variables after \<open>k\<close> further rounds, if the run gets that far.\<close>

fun after_rounds ::
  "env \<Rightarrow> agent_state \<Rightarrow> nat \<Rightarrow> message list \<times> ai_message \<times> task_event list \<Rightarrow>
   (message list \<times> ai_message \<times> task_event list) option" where
  "after_rounds E st 0 s = Some s"
| "after_rounds E st (Suc k) (messages, r, tr) =
     (case agent_round E st messages r tr of
        Inl run \<Rightarrow> None
      | Inr s \<Rightarrow> after_rounds E st k s)"

section \<open>The two entry points\<close>

text \<open>What a call hands back: its output, the module's globals after it, and the tasks
  the entrypoint started.\<close>

record 'a turn =
  returned :: 'a
  final_state :: agent_state
  tasks :: "task_event list"

definition config_required :: string where
  "config_required = ''Error: Agent not initialized. Please provide all configuration parameters.''"

definition error_running :: "exn \<Rightarrow> string" where
  "error_running e = ''Error running agent: '' @ str_exn e"

text \<open>\<open>agent.invoke([user_message])\<close> inside the \<open>try\<close> of \<open>run_agent\<close>. The same
  handler catches an exception of the setup, which then ends the call before the agent is
  started.\<close>

definition invoke_agent :: "env \<Rightarrow> agent_state \<Rightarrow> string \<Rightarrow> string turn option" where
  "invoke_agent E st question =
     (case agent E st [HumanMessage question] of
        None \<Rightarrow> None
      | Some run \<Rightarrow>
          Some \<lparr>returned = (case outcome run of
                             Inr result \<Rightarrow> content result
                           | Inl e \<Rightarrow> error_running e),
                final_state = st, tasks = trace run\<rparr>)"

definition run_agent ::
  "env \<Rightarrow> agent_state \<Rightarrow> string \<Rightarrow> string option \<Rightarrow> string option \<Rightarrow> string option \<Rightarrow>
   string option \<Rightarrow> string turn option" where
  "run_agent E st question openai_api_key neo4j_uri neo4j_username neo4j_password =
     (if list_all truthy [openai_api_key, neo4j_uri, neo4j_username, neo4j_password]
         \<and> \<not> initialized st
      then (case initialize_agent_with_config E st (str_of openai_api_key) (str_of neo4j_uri)
                   (str_of neo4j_username) (str_of neo4j_password) of
              (Some e, st1) \<Rightarrow> Some \<lparr>returned = error_running e, final_state = st1, tasks = []\<rparr>
            | (None, st1) \<Rightarrow> invoke_agent E st1 question)
      else if \<not> initialized st
      then Some \<lparr>returned = config_required, final_state = st, tasks = []\<rparr>
      else invoke_agent E st question)"

record step_event =
  task_name :: string
  step_content :: string
  step_type :: string
  is_final :: bool

text \<open>
  \<open>agent.stream([user_message])\<close>: one step per finished task, named after the task,
  then the step of the entrypoint itself; an exception of the entrypoint leaves the
  stream after the steps already produced. The framework runs the dispatches of a batch
  side by side and streams them as they finish, and those still running when another one
  raises may be missing; here they come in request order, all of them. The properties
  below concern the final and the error events and do not depend on that order.
\<close>

fun streamed :: "task_event \<Rightarrow> (string \<times> message) list" where
  "streamed (CallModelTask messages (Inr r)) = [(''call_model'', AIMessage r)]"
| "streamed (CallModelTask messages (Inl e)) = []"
| "streamed (CallToolTask tc (Inr m)) = [(''call_tool'', m)]"
| "streamed (CallToolTask tc (Inl e)) = []"

definition agent_stream :: "agent_run \<Rightarrow> (string \<times> message) list \<times> exn option" where
  "agent_stream run =
     (case outcome run of
        Inr result \<Rightarrow> (concat (map streamed (trace run)) @ [(''agent'', AIMessage result)], None)
      | Inl e \<Rightarrow> (concat (map streamed (trace run)), Some e))"

definition thinking :: string where
  "thinking = [CHR 0xF0, CHR 0x9F, CHR 0xA4, CHR 0x94] @
     '' Thinking and deciding which tools to use...'' @ nl @ nl"

definition executing :: string where
  "executing = [CHR 0xF0, CHR 0x9F, CHR 0x94, CHR 0xA7] @
     '' Executing tool...'' @ nl @ nl @ ''Result:'' @ nl"

definition tool_call_info :: "env \<Rightarrow> tool_call \<Rightarrow> string" where
  "tool_call_info E tc = ''Tool: '' @ name tc @ nl @ ''Arguments: '' @ py_repr E (args tc)"

text \<open>The body of the inner \<open>for\<close> loop of \<open>run_agent_with_streaming\<close>: the events one
  step yields (none for the entrypoint's own step).\<close>

fun step_events :: "env \<Rightarrow> string \<times> message \<Rightarrow> step_event list" where
  "step_events E (tn, message) =
     (if tn = ''agent'' then []
      else if tn = ''call_model'' then
        (case message of
           AIMessage r \<Rightarrow>
             if tool_calls r \<noteq> []
             then [\<lparr>task_name = tn,
                    step_content = thinking @ py_join (nl @ nl) (map (tool_call_info E) (tool_calls r)),
                    step_type = ''tool_decision'', is_final = False\<rparr>]
             else [\<lparr>task_name = tn, step_content = content r,
                    step_type = ''final_answer'', is_final = True\<rparr>]
         | _ \<Rightarrow> [\<lparr>task_name = tn, step_content = message_content message,
                  step_type = ''final_answer'', is_final = True\<rparr>])
      else if tn = ''call_tool'' then
        [\<lparr>task_name = tn, step_content = executing @ message_content message,
          step_type = ''tool_execution'', is_final = False\<rparr>]
      else [\<lparr>task_name = tn, step_content = [], step_type = ''model_call'', is_final = False\<rparr>])"

definition error_event :: "string \<Rightarrow> step_event" where
  "error_event msg =
     \<lparr>task_name = ''error'', step_content = msg, step_type = ''error'', is_final = True\<rparr>"

text \<open>The \<open>for\<close> loop over the stream inside the \<open>try\<close>, with the handler's event when
  the stream raises.\<close>

definition stream_agent :: "env \<Rightarrow> agent_state \<Rightarrow> string \<Rightarrow> step_event list turn option" where
  "stream_agent E st question =
     (case agent E st [HumanMessage question] of
        None \<Rightarrow> None
      | Some run \<Rightarrow>
          Some \<lparr>returned = concat (map (step_events E) (fst (agent_stream run))) @
                          (case snd (agent_stream run) of
                             None \<Rightarrow> []
                           | Some e \<Rightarrow> [error_event (error_running e)]),
                final_state = st, tasks = trace run\<rparr>)"

definition run_agent_with_streaming ::
  "env \<Rightarrow> agent_state \<Rightarrow> string \<Rightarrow> string option \<Rightarrow> string option \<Rightarrow> string option \<Rightarrow>
   string option \<Rightarrow> step_event list turn option" where
  "run_agent_with_streaming E st question openai_api_key neo4j_uri neo4j_username neo4j_password =
     (if list_all truthy [openai_api_key, neo4j_uri, neo4j_username, neo4j_password]
         \<and> \<not> initialized st
      then (case initialize_agent_with_config E st (str_of openai_api_key) (str_of neo4j_uri)
                   (str_of neo4j_username) (str_of neo4j_password) of
              (Some e, st1) \<Rightarrow>
                Some \<lparr>returned = [error_event (error_running e)], final_state = st1, tasks = []\<rparr>
            | (None, st1) \<Rightarrow> stream_agent E st1 question)
      else if \<not> initialized st
      then Some \<lparr>returned = [error_event config_required], final_state = st, tasks = []\<rparr>
      else stream_agent E st question)"

section \<open>Notions the properties are stated with\<close>

text \<open>The events that the streaming call yields for the tasks of a trace.\<close>

definition trace_events :: "env \<Rightarrow> task_event list \<Rightarrow> step_event list" where
  "trace_events E tr = concat (map (step_events E) (concat (map streamed tr)))"

definition final_event :: "ai_message \<Rightarrow> step_event" where
  "final_event r =
     \<lparr>task_name = ''call_model'', step_content = content r,
      step_type = ''final_answer'', is_final = True\<rparr>"

fun is_model_task :: "task_event \<Rightarrow> bool" where
  "is_model_task (CallModelTask messages res) = True"
| "is_model_task (CallToolTask tc res) = False"

text \<open>The call identifier a tool result answers.\<close>

fun tool_call_id :: "message \<Rightarrow> string option" where
  "tool_call_id (ToolMessage c i) = Some i"
| "tool_call_id m = None"

text \<open>
  The callable under a tool raises, for arguments that passed validation: the lookup for
  the first tool, the chain's \<open>invoke\<close> for the second, \<open>search_text\<close> for the third
  (each when the tool gets as far as calling it).
\<close>

fun callable_raises :: "env \<Rightarrow> agent_state \<Rightarrow> tool \<Rightarrow> json \<Rightarrow> bool" where
  "callable_raises E st FdaAdverseEventsTool a =
     (case validate_fda_args E a of
        Inl e \<Rightarrow> False
      | Inr (drug_name, limit) \<Rightarrow> isl (get_adverse_events (requests_get_json E) drug_name limit))"
| "callable_raises E st Neo4jQueryTool a =
     (case validate_question_args E a of
        Inl e \<Rightarrow> False
      | Inr question \<Rightarrow>
          (case neo4j_tool st of
             None \<Rightarrow> False
           | Some t \<Rightarrow>
               (case qa_chain t of
                  None \<Rightarrow> False
                | Some c \<Rightarrow> isl (chain_invoke E c question))))"
| "callable_raises E st PdfSearchTool a =
     (case validate_question_args E a of
        Inl e \<Rightarrow> False
      | Inr question \<Rightarrow>
          (case pdf_tool st of
             None \<Rightarrow> False
           | Some t \<Rightarrow> vector_store t \<noteq> None \<and> isl (search_text E t question)))"

definition raising_call :: "env \<Rightarrow> agent_state \<Rightarrow> tool_call \<Rightarrow> bool" where
  "raising_call E st tc =
     (case map_of (tools_by_name st) (name tc) of
        None \<Rightarrow> False
      | Some t \<Rightarrow> callable_raises E st t (args tc))"

text \<open>The tool results of a batch, for the dispatches that return.\<close>

definition dispatched :: "env \<Rightarrow> agent_state \<Rightarrow> tool_call list \<Rightarrow> message list" where
  "dispatched E st tcs =
     concat (map (\<lambda>tc. case call_tool E st tc of Inl e \<Rightarrow> [] | Inr m \<Rightarrow> [m]) tcs)"

text \<open>The history after the rounds of a list of responses: each response followed by
  the results of its batch.\<close>

fun history_after :: "env \<Rightarrow> agent_state \<Rightarrow> message list \<Rightarrow> ai_message list \<Rightarrow> message list" where
  "history_after E st h [] = h"
| "history_after E st h (r # rs) =
     history_after E st (add_messages h (AIMessage r # dispatched E st (tool_calls r))) rs"

text \<open>
  The sequence of model responses of a turn: invoked on the history \<open>h\<close> the model
  answers with the first response of the list, invoked on the history of the next round
  with the second, and so on.
\<close>

fun model_replies :: "env \<Rightarrow> agent_state \<Rightarrow> message list \<Rightarrow> ai_message list \<Rightarrow> bool" where
  "model_replies E st h [] = True"
| "model_replies E st h (r # rs) =
     (call_model E st h = Inr r \<and>
      model_replies E st (add_messages h (AIMessage r # dispatched E st (tool_calls r))) rs)"

section \<open>Example inputs\<close>

text \<open>The module's globals when it has just been imported.\<close>

definition initial_state :: agent_state where
  "initial_state =
     \<lparr>environ = (\<lambda>k. None), neo4j_tool = None, pdf_tool = None, model = None,
      tools = [], tools_by_name = [], initialized = False\<rparr>"

fun is_ai :: "message \<Rightarrow> bool" where
  "is_ai (AIMessage r) = True"
| "is_ai m = False"

text \<open>
  An environment with no network and no PDF file, whose chat model replays a fixed list of
  responses: the \<open>i\<close>-th invocation of a turn (the one that sees \<open>i\<close> earlier assistant
  messages) answers with the \<open>i\<close>-th response, and fails when the list is used up.
\<close>

definition offline :: exn where
  "offline = OtherError ''connection refused''"

definition scripted_env :: "ai_message list \<Rightarrow> env" where
  "scripted_env script =
     \<lparr>requests_get_json = (\<lambda>url. Inl offline),
      json_dumps = (\<lambda>v. Inr ''[]''),
      py_repr = (\<lambda>v. ''{}''),
      validate_fda_args = (\<lambda>a. case a of
          JObj kv \<Rightarrow> (case map_of kv ''drug_name'' of
                        Some (JStr d) \<Rightarrow> Inr (d, 10)
                      | _ \<Rightarrow> Inl (ValueError ''validation error''))
        | _ \<Rightarrow> Inl (ValueError ''validation error'')),
      validate_question_args = (\<lambda>a. case a of
          JObj kv \<Rightarrow> (case map_of kv ''question'' of
                        Some (JStr q) \<Rightarrow> Inr q
                      | _ \<Rightarrow> Inl (ValueError ''validation error''))
        | _ \<Rightarrow> Inl (ValueError ''validation error'')),
      chat_invoke = (\<lambda>m ts messages.
          let i = length (filter is_ai messages)
          in if i < length script then Inr (script ! i) else Inl offline),
      path_exists = (\<lambda>p. False),
      abs_pdf_path = ''/app/tools/pdf_data/report_2023_2024.pdf'',
      rel_pdf_path = ''/app/agent/../tools/pdf_data/report_2023_2024.pdf'',
      build_vector_store = (\<lambda>p. Inl offline),
      similarity_search = (\<lambda>vs q. Inl offline),
      rag_invoke = (\<lambda>m c q. Inl offline),
      graph_database_driver = (\<lambda>u a. Inl offline),
      verify_connectivity = (\<lambda>d. Inl offline),
      neo4j_graph_connect = (\<lambda>u n p. Inl offline),
      chain_from_llm = (\<lambda>m g. Inl offline),
      chain_invoke = (\<lambda>c q. Inl offline),
      chat_openai_error = (\<lambda>m t k. None),
      openai_embeddings_error = (\<lambda>m k. None)\<rparr>"

definition ready_state :: agent_state where
  "ready_state =
     snd (initialize_agent_with_config (scripted_env []) initial_state
            ''sk-test'' ''bolt://localhost:7687'' ''neo4j'' ''secret'')"

definition fda_call :: tool_call where
  "fda_call = \<lparr>name = ''fda_adverse_events_tool'',
               args = JObj [(''drug_name'', JStr ''TRAMADOL'')],
               call_id = ''call_1''\<rparr>"

definition bogus_call :: tool_call where
  "bogus_call = \<lparr>name = ''weather_tool'', args = JObj [], call_id = ''call_9''\<rparr>"

definition asks_fda :: ai_message where
  "asks_fda = \<lparr>content = [], tool_calls = [fda_call]\<rparr>"

definition asks_bogus :: ai_message where
  "asks_bogus = \<lparr>content = [], tool_calls = [bogus_call]\<rparr>"

definition final_answer :: ai_message where
  "final_answer = \<lparr>content = ''No adverse events could be retrieved.'', tool_calls = []\<rparr>"

text \<open>A database address that is not empty and holds a NUL character.\<close>

definition nul_uri :: string where
  "nul_uri = ''bolt://localhost:7687'' @ [CHR 0x00]"

text \<open>A reply with one report whose only drug is ASPIRIN.\<close>

definition aspirin_report :: json where
  "aspirin_report =
     JObj [(''receivedate'', JStr ''20240105''),
           (''safetyreportid'', JStr ''23001''),
           (''patient'', JObj [
              (''drug'', JArr [JObj [(''medicinalproduct'', JStr ''ASPIRIN'')]]),
              (''reaction'', JArr [JObj [(''reactionmeddrapt'', JStr ''Nausea'')]])])]"

definition aspirin_api :: "string \<Rightarrow> exn + json" where
  "aspirin_api url = Inr (JObj [(''results'', JArr [aspirin_report])])"



definition fda_history :: "message list" where
  "fda_history =
     [HumanMessage ''hi'', AIMessage asks_fda,
      ToolMessage ''Error retrieving FDA data: connection refused'' ''call_1'']"

definition fda_trace :: "task_event list" where
  "fda_trace =
     [CallModelTask [HumanMessage ''hi''] (Inr asks_fda),
      CallToolTask fda_call (Inr (ToolMessage ''Error retrieving FDA data: connection refused'' ''call_1'')),
      CallModelTask fda_history (Inr final_answer)]"

section \<open>Properties of the adverse-event lookup\<close>

lemma str_contains_iff_sublist: "str_contains sub s \<longleftrightarrow> sublist sub s"
  by (induction s) (auto simp: sublist_Cons_right)

text \<open>
  Claim C8. The lookup is to return, for whatever drug was queried, the drug names of each
  report. The code keeps only the names that contain the fixed text TRAMADOL: queried for
  ASPIRIN, a report whose drug is ASPIRIN comes back with an empty \<open>drug_names\<close> list
  (the other fields are extracted, the missing outcome defaulting to N/A).
\<close>

theorem get_adverse_events_aspirin_drops_names:
  "get_adverse_events aspirin_api ''ASPIRIN'' 10 =
     Inr [JObj [(''receivedate'', JStr ''20240105''),
                (''safetyreportid'', JStr ''23001''),
                (''drug_names'', JArr []),
                (''reactions'', JArr [JStr ''Nausea'']),
                (''outcomes'', JArr [JStr ''N/A''])]]"
  by (simp add: get_adverse_events_def aspirin_api_def aspirin_report_def bind_exn_def
      extract_event_def has_patient_key_def patient_items_def not_available_def upper_char_def)

section \<open>Properties of the agent loop\<close>

lemma agent_loop_done:
  "agent_round E st messages r tr = Inl run \<Longrightarrow> agent_loop E st messages r tr = Some run"
  by (subst agent_loop.simps) simp

lemma agent_loop_next:
  "agent_round E st messages r tr = Inr (messages1, r1, tr1) \<Longrightarrow>
   agent_loop E st messages r tr = agent_loop E st messages1 r1 tr1"
  by (subst agent_loop.simps) simp

lemma agent_round_final:
  "tool_calls r = [] \<Longrightarrow>
   agent_round E st messages r tr = Inl \<lparr>outcome = Inr r, history = messages, trace = tr\<rparr>"
  by (simp add: agent_round_def)

lemma agent_loop_after_rounds:
  "after_rounds E st k (messages, r, tr) = Some (messages1, r1, tr1) \<Longrightarrow>
   agent_loop E st messages r tr = agent_loop E st messages1 r1 tr1"
proof (induction k arbitrary: messages r tr)
  case 0
  then show ?case by simp
next
  case (Suc k)
  then obtain s where s: "agent_round E st messages r tr = Inr s"
    and rest: "after_rounds E st k s = Some (messages1, r1, tr1)"
    by (auto split: sum.splits)
  obtain m2 r2 tr2 where s_def: "s = (m2, r2, tr2)" by (cases s)
  have "agent_loop E st messages r tr = agent_loop E st m2 r2 tr2"
    using s s_def by (simp add: agent_loop_next)
  also have "\<dots> = agent_loop E st messages1 r1 tr1"
    using Suc.IH rest s_def by simp
  finally show ?case .
qed

lemma model_tasks_of_tools:
  "filter is_model_task (map2 CallToolTask tcs futs) = []"
  by (auto simp: filter_empty_conv)

lemma agent_round_continue:
  assumes "agent_round E st messages r tr = Inr (m1, r1, tr1)"
  shows "call_model E st m1 = Inr r1"
    and "length (filter is_model_task tr1) = Suc (length (filter is_model_task tr))"
  using assms
  by (auto simp: agent_round_def Let_def model_tasks_of_tools split: if_splits sum.splits)

lemma after_rounds_invariants:
  "after_rounds E st k (messages, r, tr) = Some (h, r1, tr1) \<Longrightarrow>
   call_model E st messages = Inr r \<Longrightarrow>
   call_model E st h = Inr r1 \<and>
   length (filter is_model_task tr1) = length (filter is_model_task tr) + k"
proof (induction k arbitrary: messages r tr)
  case 0
  then show ?case by simp
next
  case (Suc k)
  then obtain s where s: "agent_round E st messages r tr = Inr s"
    and rest: "after_rounds E st k s = Some (h, r1, tr1)"
    by (auto split: sum.splits)
  obtain m2 r2 tr2 where s_def: "s = (m2, r2, tr2)" by (cases s)
  have "call_model E st m2 = Inr r2"
    and "length (filter is_model_task tr2) = Suc (length (filter is_model_task tr))"
    using agent_round_continue [of E st messages r tr m2 r2 tr2] s s_def by simp_all
  then show ?case
    using Suc.IH [of m2 r2 tr2] rest s_def by simp
qed

lemma run_agent_initialized:
  "initialized st \<Longrightarrow> run_agent E st q k u n p = invoke_agent E st q"
  by (simp add: run_agent_def)

section \<open>Dispatching a batch of tool calls\<close>

lemma future_results_returned: "future_results (map Inr xs) = Inr xs"
  by (induction xs) (simp_all add: bind_exn_def)

lemma future_results_raised:
  "Inl e \<in> set fs \<Longrightarrow> \<exists>e1. future_results fs = Inl e1"
proof (induction fs)
  case Nil
  then show ?case by simp
next
  case (Cons f fs)
  show ?case
  proof (cases f)
    case (Inl a)
    then show ?thesis by simp
  next
    case (Inr b)
    then obtain e1 where "future_results fs = Inl e1" using Cons by auto
    then show ?thesis using Inr by (simp add: bind_exn_def)
  qed
qed

lemma all_returned:
  "list_all (\<lambda>x. \<not> isl (f x)) xs \<Longrightarrow> \<exists>ys. map f xs = map Inr ys"
proof (induction xs)
  case Nil
  then show ?case by simp
next
  case (Cons x xs)
  then obtain ys where ys: "map f xs = map Inr ys" by auto
  obtain y where "f x = Inr y" using Cons.prems by (cases "f x") auto
  then have "map f (x # xs) = map Inr (y # ys)" using ys by simp
  then show ?case by blast
qed

lemma call_tool_result_id:
  "call_tool E st tc = Inr m \<Longrightarrow> tool_call_id m = Some (call_id tc)"
  by (auto simp: call_tool_def bind_exn_def split: if_splits option.splits sum.splits)

lemma call_tool_result_ids:
  "map (call_tool E st) tcs = map Inr results \<Longrightarrow>
   map tool_call_id results = map (Some \<circ> call_id) tcs"
proof (induction tcs arbitrary: results)
  case Nil
  then show ?case by simp
next
  case (Cons tc tcs)
  then obtain m ms where results: "results = m # ms" by (cases results) auto
  then have "call_tool E st tc = Inr m" and "map (call_tool E st) tcs = map Inr ms"
    using Cons.prems by simp_all
  then show ?case using Cons.IH results by (simp add: call_tool_result_id)
qed

lemma agent_round_dispatched:
  assumes "tool_calls r \<noteq> []"
    and "map (call_tool E st) (tool_calls r) = map Inr results"
  shows "agent_round E st messages r tr =
     (let messages1 = messages @ AIMessage r # results;
          next_response = call_model E st messages1;
          tr2 = tr @ map2 CallToolTask (tool_calls r) (map Inr results) @
                [CallModelTask messages1 next_response]
      in case next_response of
           Inl e \<Rightarrow> Inl \<lparr>outcome = Inl e, history = messages1, trace = tr2\<rparr>
         | Inr r1 \<Rightarrow> Inr (messages1, r1, tr2))"
  using assms
  by (simp add: agent_round_def Let_def future_results_returned add_messages_def)

lemma call_tool_raises_iff:
  "isl (call_tool E st tc) \<longleftrightarrow>
     tools_by_name st = [] \<or>
     (case map_of (tools_by_name st) (name tc) of
        None \<Rightarrow> True
      | Some t \<Rightarrow> isl (tool_invoke E st t (args tc)))"
  by (auto simp: call_tool_def bind_exn_def split: option.splits sum.splits)

lemma raising_call_returns_error_text:
  assumes "raising_call E st tc"
  shows "\<exists>s. call_tool E st tc = Inr (ToolMessage s (call_id tc)) \<and> prefix ''Error'' s"
proof -
  obtain t where t: "map_of (tools_by_name st) (name tc) = Some t"
    and raises: "callable_raises E st t (args tc)"
    using assms by (auto simp: raising_call_def split: option.splits)
  have nonempty: "tools_by_name st \<noteq> []" using t by auto
  have "\<exists>s. tool_invoke E st t (args tc) = Inr s \<and> prefix ''Error'' s"
  proof (cases t)
    case FdaAdverseEventsTool
    then show ?thesis using raises
      by (auto simp: bind_exn_def fda_adverse_events_tool_def isl_def split: sum.splits)
  next
    case Neo4jQueryTool
    then show ?thesis using raises
      by (auto simp: bind_exn_def neo4j_query_tool_def ask_question_def isl_def
          split: sum.splits option.splits)
  next
    case PdfSearchTool
    then show ?thesis using raises
      by (auto simp: bind_exn_def pdf_search_tool_def isl_def split: sum.splits option.splits)
  qed
  then show ?thesis using t nonempty by (auto simp: call_tool_def bind_exn_def)
qed

lemma loop_aborts_on_raised_future:
  assumes "tool_calls r \<noteq> []"
    and "future_results (map (call_tool E st) (tool_calls r)) = Inl e"
  shows "agent_loop E st messages r tr =
     Some \<lparr>outcome = Inl e, history = messages,
           trace = tr @ map2 CallToolTask (tool_calls r) (map (call_tool E st) (tool_calls r))\<rparr>"
  using assms by (simp add: agent_loop_done agent_round_def Let_def)

lemma dispatched_returned:
  "map (call_tool E st) tcs = map Inr results \<Longrightarrow> dispatched E st tcs = results"
proof (induction tcs arbitrary: results)
  case Nil
  then show ?case by (simp add: dispatched_def)
next
  case (Cons tc tcs)
  then obtain m ms where results: "results = m # ms" by (cases results) auto
  then have "call_tool E st tc = Inr m" and "map (call_tool E st) tcs = map Inr ms"
    using Cons.prems by simp_all
  then show ?case using Cons.IH [of ms] results by (simp add: dispatched_def)
qed

text \<open>The loop follows the model's responses as long as the dispatches return.\<close>

lemma loop_follows_replies:
  assumes "model_replies E st h (x # xs)"
    and "list_all (\<lambda>y. tool_calls y \<noteq> [] \<and>
           list_all (\<lambda>tc. \<not> isl (call_tool E st tc)) (tool_calls y)) (butlast (x # xs))"
    and "tool_calls (last (x # xs)) = []"
  shows "\<exists>tr1. agent_loop E st h x tr =
             Some \<lparr>outcome = Inr (last (x # xs)),
                   history = history_after E st h (butlast (x # xs)), trace = tr1\<rparr> \<and>
           length (filter is_model_task tr1) = length (filter is_model_task tr) + length xs \<and>
           call_model E st (history_after E st h (butlast (x # xs))) = Inr (last (x # xs))"
  using assms
proof (induction xs arbitrary: h x tr)
  case Nil
  then show ?case by (simp add: agent_loop_done agent_round_final)
next
  case (Cons y ys)
  have calls: "tool_calls x \<noteq> []"
    and ok: "list_all (\<lambda>tc. \<not> isl (call_tool E st tc)) (tool_calls x)"
    using Cons.prems(2) by simp_all
  obtain results where res: "map (call_tool E st) (tool_calls x) = map Inr results"
    using all_returned [OF ok] by blast
  have disp: "dispatched E st (tool_calls x) = results"
    using res by (rule dispatched_returned)
  let ?h1 = "h @ AIMessage x # results"
  let ?tr2 = "tr @ map2 CallToolTask (tool_calls x) (map Inr results) @
              [CallModelTask ?h1 (Inr y)]"
  have next_reply: "call_model E st ?h1 = Inr y"
    and rest: "model_replies E st ?h1 (y # ys)"
    using Cons.prems(1) disp by (simp_all add: add_messages_def)
  have round: "agent_round E st h x tr = Inr (?h1, y, ?tr2)"
    using agent_round_dispatched [OF calls res, of h tr] next_reply by (simp add: Let_def)
  have step: "agent_loop E st h x tr = agent_loop E st ?h1 y ?tr2"
    using round by (rule agent_loop_next)
  have later: "list_all (\<lambda>y. tool_calls y \<noteq> [] \<and>
           list_all (\<lambda>tc. \<not> isl (call_tool E st tc)) (tool_calls y)) (butlast (y # ys))"
    using Cons.prems(2) by simp
  have last: "tool_calls (last (y # ys)) = []"
    using Cons.prems(3) by simp
  obtain tr1 where run: "agent_loop E st ?h1 y ?tr2 =
        Some \<lparr>outcome = Inr (last (y # ys)),
              history = history_after E st ?h1 (butlast (y # ys)), trace = tr1\<rparr>"
    and count: "length (filter is_model_task tr1) = length (filter is_model_task ?tr2) + length ys"
    and seen: "call_model E st (history_after E st ?h1 (butlast (y # ys))) = Inr (last (y # ys))"
    using Cons.IH [OF rest later last, of ?tr2] by blast
  have hist: "history_after E st h (butlast (x # y # ys)) =
      history_after E st ?h1 (butlast (y # ys))"
    using disp by (simp add: add_messages_def)
  have "length (filter is_model_task ?tr2) = Suc (length (filter is_model_task tr))"
    by (simp add: model_tasks_of_tools)
  then have "length (filter is_model_task tr1) = length (filter is_model_task tr) + length (y # ys)"
    using count by simp
  then show ?case
    using step run seen hist by simp
qed

section \<open>The example runs, evaluated\<close>

lemma ready_state_fields:
  "initialized ready_state"
  "model ready_state = Some \<lparr>model_name = ''gpt-4'', temperature = 0, api_key = Some ''sk-test''\<rparr>"
  "tools ready_state = [FdaAdverseEventsTool, Neo4jQueryTool, PdfSearchTool]"
  "tools_by_name ready_state =
     [(''fda_adverse_events_tool'', FdaAdverseEventsTool),
      (''neo4j_query_tool'', Neo4jQueryTool),
      (''pdf_search_tool'', PdfSearchTool)]"
  by (simp_all add: ready_state_def initialize_agent_with_config_def and_then_def setenv_def
      PDFTool_init_def new_OpenAIEmbeddings_def new_ChatOpenAI_def bind_exn_def scripted_env_def
      initial_state_def Let_def)

lemma ready_setup:
  "initialize_agent_with_config (scripted_env []) initial_state
     ''sk-test'' ''bolt://localhost:7687'' ''neo4j'' ''secret'' = (None, ready_state)"
proof -
  have "fst (initialize_agent_with_config (scripted_env []) initial_state
     ''sk-test'' ''bolt://localhost:7687'' ''neo4j'' ''secret'') = None"
    by (simp add: initialize_agent_with_config_def and_then_def setenv_def
        PDFTool_init_def new_OpenAIEmbeddings_def new_ChatOpenAI_def bind_exn_def scripted_env_def
        initial_state_def Let_def)
  then show ?thesis by (simp add: ready_state_def prod_eq_iff)
qed

lemma repr_weather_tool:
  "repr_str ''weather_tool'' = [CHR 0x27] @ ''weather_tool'' @ [CHR 0x27]"
  by code_simp

lemma scripted_chat:
  "chat_invoke (scripted_env script) m ts messages =
     (if length (filter is_ai messages) < length script
      then Inr (script ! length (filter is_ai messages)) else Inl offline)"
  by (simp add: scripted_env_def Let_def)

lemma call_model_ready:
  "call_model (scripted_env script) ready_state messages =
     (if length (filter is_ai messages) < length script
      then Inr (script ! length (filter is_ai messages)) else Inl offline)"
  by (simp add: call_model_def ready_state_fields scripted_chat)

lemma call_tool_bogus:
  "call_tool E ready_state bogus_call = Inl (KeyError ''weather_tool'')"
  by (simp add: call_tool_def ready_state_fields bogus_call_def)

lemma fda_tool_offline:
  "fda_adverse_events_tool (scripted_env script) d l = ''Error retrieving FDA data: connection refused''"
  by (simp add: fda_adverse_events_tool_def get_adverse_events_def scripted_env_def bind_exn_def offline_def)

lemma call_tool_fda:
  "call_tool (scripted_env script) ready_state fda_call =
     Inr (ToolMessage ''Error retrieving FDA data: connection refused'' ''call_1'')"
  by (simp add: call_tool_def ready_state_fields fda_call_def fda_tool_offline bind_exn_def)
     (simp add: scripted_env_def)



section \<open>The events of a run\<close>

text \<open>
  Among the events of the tasks a run started, the only one marked final is the event of
  the model response that carries no tool call; while the loop is still going round with
  a response that requests tools there is none.
\<close>

lemma trace_events_append:
  "trace_events E (a @ b) = trace_events E a @ trace_events E b"
  by (simp add: trace_events_def)

lemma trace_events_Nil: "trace_events E [] = []"
  by (simp add: trace_events_def)

lemma trace_events_tool:
  "trace_events E [CallToolTask tc res] =
     (case res of Inl e \<Rightarrow> []
      | Inr m \<Rightarrow> [\<lparr>task_name = ''call_tool'', step_content = executing @ message_content m,
          step_type = ''tool_execution'', is_final = False\<rparr>])"
  by (simp add: trace_events_def split: sum.splits)

lemma trace_events_model:
  "trace_events E [CallModelTask ms res] =
     (case res of Inl e \<Rightarrow> []
      | Inr r \<Rightarrow> if tool_calls r \<noteq> []
          then [\<lparr>task_name = ''call_model'',
                 step_content = thinking @ py_join (nl @ nl) (map (tool_call_info E) (tool_calls r)),
                 step_type = ''tool_decision'', is_final = False\<rparr>]
          else [final_event r])"
  by (simp add: trace_events_def final_event_def split: sum.splits)


lemma tool_tasks_not_final:
  "filter is_final (trace_events E (map2 CallToolTask tcs futs)) = []"
proof (induction tcs arbitrary: futs)
  case Nil
  then show ?case by (simp add: trace_events_Nil)
next
  case (Cons tc tcs)
  show ?case
  proof (cases futs)
    case Nil
    then show ?thesis by (simp add: trace_events_Nil)
  next
    case (Cons f fs)
    have "filter is_final (trace_events E [CallToolTask tc f]) = []"
      by (simp add: trace_events_tool split: sum.splits)
    moreover have "trace_events E (map2 CallToolTask (tc # tcs) futs) =
          trace_events E [CallToolTask tc f] @ trace_events E (map2 CallToolTask tcs fs)"
      unfolding Cons by (simp add: trace_events_def)
    ultimately show ?thesis
      using Cons.IH [of fs] by simp
  qed
qed

lemma agent_round_finals:
  assumes inv: "filter is_final (trace_events E tr) = (if tool_calls r = [] then [final_event r] else [])"
  shows "case agent_round E st messages r tr of
           Inl run \<Rightarrow> filter is_final (trace_events E (trace run)) =
               (case outcome run of Inr r' \<Rightarrow> [final_event r'] | Inl e \<Rightarrow> [])
         | Inr (m1, r1, tr1) \<Rightarrow> filter is_final (trace_events E tr1) =
               (if tool_calls r1 = [] then [final_event r1] else [])"
proof (cases "tool_calls r = []")
  case True
  then show ?thesis using inv by (simp add: agent_round_def)
next
  case False
  then show ?thesis using inv
    by (simp add: agent_round_def Let_def trace_events_append tool_tasks_not_final
        trace_events_model final_event_def split: sum.splits)
qed

lemma agent_loop_finals:
  assumes "agent_loop E st messages r tr = Some run"
    and "filter is_final (trace_events E tr) = (if tool_calls r = [] then [final_event r] else [])"
  shows "filter is_final (trace_events E (trace run)) =
           (case outcome run of Inr r' \<Rightarrow> [final_event r'] | Inl e \<Rightarrow> [])"
  using assms
proof (induction rule: agent_loop.raw_induct [rotated 1, consumes 1, case_names step])
  case (step loop E st messages r tr run)
  note IH = step(1) and body = step(2) and inv = step(3)
  show ?case
  proof (cases "agent_round E st messages r tr")
    case (Inl fin)
    then show ?thesis
      using body agent_round_finals [OF inv, of st messages] by simp
  next
    case (Inr s)
    obtain m1 r1 tr1 where s: "s = (m1, r1, tr1)" by (cases s)
    have "loop E st m1 r1 tr1 = Some run" using body Inr s by simp
    moreover have "filter is_final (trace_events E tr1) =
        (if tool_calls r1 = [] then [final_event r1] else [])"
      using agent_round_finals [OF inv, of st messages] Inr s by simp
    ultimately show ?thesis by (rule IH)
  qed
qed

lemma agent_finals:
  assumes "agent E st messages = Some run"
  shows "filter is_final (trace_events E (trace run)) =
           (case outcome run of Inr r' \<Rightarrow> [final_event r'] | Inl e \<Rightarrow> [])"
proof (cases "call_model E st messages")
  case (Inl e)
  then show ?thesis using assms by (auto simp: agent_def Let_def trace_events_model)
next
  case (Inr r)
  then have "agent_loop E st messages r [CallModelTask messages (Inr r)] = Some run"
    using assms by (simp add: agent_def Let_def)
  then show ?thesis
    by (rule agent_loop_finals) (simp add: trace_events_model final_event_def)
qed



lemma stream_agent_returned:
  assumes "agent E st [HumanMessage q] = Some run"
  shows "stream_agent E st q =
           Some \<lparr>returned = trace_events E (trace run) @
                     (case outcome run of Inr r \<Rightarrow> [] | Inl e \<Rightarrow> [error_event (error_running e)]),
                 final_state = st, tasks = trace run\<rparr>"
  using assms by (simp add: stream_agent_def agent_stream_def trace_events_def split: sum.splits)

lemma stream_agent_none:
  "agent E st [HumanMessage q] = None \<Longrightarrow> stream_agent E st q = None"
  by (simp add: stream_agent_def)

lemma stream_invoke_agree:
  "map_option (\<lambda>t. (map step_content (filter is_final (returned t)), final_state t, tasks t))
     (stream_agent E st q) =
   map_option (\<lambda>t. ([returned t], final_state t, tasks t)) (invoke_agent E st q)"
proof (cases "agent E st [HumanMessage q]")
  case None
  then show ?thesis by (simp add: stream_agent_def invoke_agent_def)
next
  case (Some run)
  show ?thesis
    using stream_agent_returned [OF Some] agent_finals [OF Some] Some
    by (simp add: invoke_agent_def error_event_def final_event_def split: sum.splits)
qed

text \<open>
  Claim C3. For one environment (a fixed sequence of model and tool responses), one state
  of the module and one question and configuration, the streaming call yields exactly one
  event with \<open>is_final = True\<close>, and its content is the text that the non-streaming
  call returns; both calls leave the same state and start the same tasks, and one ends
  exactly when the other does.
\<close>

theorem streaming_final_event_is_answer:
  "map_option (\<lambda>t. (map step_content (filter is_final (returned t)), final_state t, tasks t))
     (run_agent_with_streaming E st q k u n p) =
   map_option (\<lambda>t. ([returned t], final_state t, tasks t)) (run_agent E st q k u n p)"
  by (simp add: run_agent_with_streaming_def run_agent_def stream_invoke_agree error_event_def
      split: prod.splits option.splits)




text \<open>
  Claim C2, as the code has it. Let the model answer a turn with the responses
  \<open>rs\<close> and then \<open>r\<close>, where \<open>r\<close> is the first without tool calls, and let every
  dispatch of the rounds of \<open>rs\<close> return. Then the loop ends after these rounds: the run
  returns \<open>r\<close>, its history is the one on which \<open>r\<close> was produced with nothing
  appended, the model was invoked once per response, and \<open>run_agent\<close> returns the
  content of \<open>r\<close>.
\<close>

theorem agent_returns_tool_free_response:
  assumes init: "initialized st"
    and replies: "model_replies E st [HumanMessage q] (rs @ [r])"
    and earlier: "list_all (\<lambda>x. tool_calls x \<noteq> [] \<and>
                     list_all (\<lambda>tc. \<not> isl (call_tool E st tc)) (tool_calls x)) rs"
    and final: "tool_calls r = []"
  shows "\<exists>tr. agent E st [HumanMessage q] =
                Some \<lparr>outcome = Inr r, history = history_after E st [HumanMessage q] rs,
                      trace = tr\<rparr> \<and>
              run_agent E st q ko uo no po =
                Some \<lparr>returned = content r, final_state = st, tasks = tr\<rparr> \<and>
              call_model E st (history_after E st [HumanMessage q] rs) = Inr r \<and>
              length (filter is_model_task tr) = Suc (length rs)"
proof -
  obtain x xs where split: "rs @ [r] = x # xs" by (cases rs) auto
  have b: "butlast (x # xs) = rs" and l: "last (x # xs) = r" and n: "length xs = length rs"
    using arg_cong [OF split, of butlast] arg_cong [OF split, of last]
      arg_cong [OF split, of length] by simp_all
  have first: "call_model E st [HumanMessage q] = Inr x"
    using replies split by simp
  obtain tr where loop: "agent_loop E st [HumanMessage q] x [CallModelTask [HumanMessage q] (Inr x)] =
        Some \<lparr>outcome = Inr r, history = history_after E st [HumanMessage q] rs, trace = tr\<rparr>"
    and count: "length (filter is_model_task tr) = Suc (length rs)"
    and seen: "call_model E st (history_after E st [HumanMessage q] rs) = Inr r"
    using loop_follows_replies [of E st "[HumanMessage q]" x xs
        "[CallModelTask [HumanMessage q] (Inr x)]"] replies earlier final split b l n
    by auto
  have run: "agent E st [HumanMessage q] =
      Some \<lparr>outcome = Inr r, history = history_after E st [HumanMessage q] rs, trace = tr\<rparr>"
    using first loop by (simp add: agent_def Let_def)
  have "run_agent E st q ko uo no po = Some \<lparr>returned = content r, final_state = st, tasks = tr\<rparr>"
    using init run by (simp add: run_agent_initialized invoke_agent_def)
  then show ?thesis using run count seen by blast
qed

lemma fda_round:
  "agent_round (scripted_env [asks_fda, final_answer]) ready_state [HumanMessage ''hi''] asks_fda
     [CallModelTask [HumanMessage ''hi''] (Inr asks_fda)] =
   Inr (fda_history, final_answer, fda_trace)"
  by (simp add: agent_round_def Let_def asks_fda_def call_tool_fda bind_exn_def add_messages_def
      call_model_ready fda_history_def fda_trace_def)

theorem agent_returns_tool_free_response_witness:
  "initialized ready_state \<and>
   model_replies (scripted_env [asks_fda, final_answer]) ready_state [HumanMessage ''hi'']
     ([asks_fda] @ [final_answer]) \<and>
   list_all (\<lambda>x. tool_calls x \<noteq> [] \<and>
       list_all (\<lambda>tc. \<not> isl (call_tool (scripted_env [asks_fda, final_answer]) ready_state tc))
         (tool_calls x)) [asks_fda] \<and>
   tool_calls final_answer = [] \<and>
   history_after (scripted_env [asks_fda, final_answer]) ready_state [HumanMessage ''hi''] [asks_fda] =
     fda_history \<and>
   (\<exists>tr. agent (scripted_env [asks_fda, final_answer]) ready_state [HumanMessage ''hi''] =
           Some \<lparr>outcome = Inr final_answer,
                 history = history_after (scripted_env [asks_fda, final_answer]) ready_state
                             [HumanMessage ''hi''] [asks_fda],
                 trace = tr\<rparr> \<and>
         run_agent (scripted_env [asks_fda, final_answer]) ready_state ''hi'' None None None None =
           Some \<lparr>returned = content final_answer, final_state = ready_state, tasks = tr\<rparr> \<and>
         length (filter is_model_task tr) = Suc (length [asks_fda]))"
proof -
  have init: "initialized ready_state" by (simp add: ready_state_fields)
  have hist: "history_after (scripted_env [asks_fda, final_answer]) ready_state
      [HumanMessage ''hi''] [asks_fda] = fda_history"
    by (simp add: dispatched_def asks_fda_def call_tool_fda add_messages_def fda_history_def)
  have replies: "model_replies (scripted_env [asks_fda, final_answer]) ready_state
      [HumanMessage ''hi''] ([asks_fda] @ [final_answer])"
    by (simp add: call_model_ready dispatched_def asks_fda_def call_tool_fda add_messages_def)
  have earlier: "list_all (\<lambda>x. tool_calls x \<noteq> [] \<and>
       list_all (\<lambda>tc. \<not> isl (call_tool (scripted_env [asks_fda, final_answer]) ready_state tc))
         (tool_calls x)) [asks_fda]"
    by (simp add: asks_fda_def call_tool_fda)
  have final: "tool_calls final_answer = []" by (simp add: final_answer_def)
  show ?thesis
    using agent_returns_tool_free_response [OF init replies earlier final, of None None None None]
      init replies earlier final hist
    by blast
qed

text \<open>
  Without the condition on the dispatches the claim fails: the model's responses are a
  request for a tool that is not registered and then an answer without tool calls, and the
  run ends with the exception of the dispatch, the history as it was, before the answer is
  ever produced.
\<close>

theorem tool_free_response_is_not_reached:
  "tool_calls ([asks_bogus, final_answer] ! 1) = [] \<and>
   map_option outcome (agent (scripted_env [asks_bogus, final_answer]) ready_state [HumanMessage ''hi'']) =
     Some (Inl (KeyError ''weather_tool'')) \<and>
   map_option history (agent (scripted_env [asks_bogus, final_answer]) ready_state [HumanMessage ''hi'']) =
     Some [HumanMessage ''hi'']"
  by (simp add: agent_def call_model_ready Let_def agent_loop_done agent_round_def
      asks_bogus_def call_tool_bogus final_answer_def)

text \<open>
  Claim C1, as the code has it. In a round whose response requests \<open>n > 0\<close> tool calls
  and in which no dispatch raises (by \<open>call_tool_raises_iff\<close>: the registry is not
  empty, every requested name is registered and the arguments pass the tool's validation),
  \<open>n\<close> tool results are produced, the \<open>i\<close>-th carrying the identifier of the
  \<open>i\<close>-th request, so that each result answers exactly one request when the identifiers
  of the batch are distinct; the history handed to the next invocation of the model is the
  old one followed by the assistant response and the results in request order.
\<close>

theorem round_appends_response_and_results:
  assumes "tool_calls r \<noteq> []"
    and "list_all (\<lambda>tc. \<not> isl (call_tool E st tc)) (tool_calls r)"
  shows "\<exists>results.
           map (call_tool E st) (tool_calls r) = map Inr results \<and>
           length results = length (tool_calls r) \<and>
           map tool_call_id results = map (Some \<circ> call_id) (tool_calls r) \<and>
           (distinct (map call_id (tool_calls r)) \<longrightarrow>
              (\<forall>i < length results. \<forall>j < length (tool_calls r).
                 (tool_call_id (results ! i) = Some (call_id (tool_calls r ! j))) = (i = j))) \<and>
           agent_round E st messages r tr =
             (let messages1 = messages @ AIMessage r # results;
                  next_response = call_model E st messages1;
                  tr2 = tr @ map2 CallToolTask (tool_calls r) (map Inr results) @
                        [CallModelTask messages1 next_response]
              in case next_response of
                   Inl e \<Rightarrow> Inl \<lparr>outcome = Inl e, history = messages1, trace = tr2\<rparr>
                 | Inr r1 \<Rightarrow> Inr (messages1, r1, tr2))"
proof -
  obtain results where res: "map (call_tool E st) (tool_calls r) = map Inr results"
    using all_returned [OF assms(2)] by blast
  have len: "length results = length (tool_calls r)"
    using res by (metis length_map)
  have ids: "map tool_call_id results = map (Some \<circ> call_id) (tool_calls r)"
    using res by (rule call_tool_result_ids)
  have once: "(tool_call_id (results ! i) = Some (call_id (tool_calls r ! j))) = (i = j)"
    if d: "distinct (map call_id (tool_calls r))" and i: "i < length results"
      and j: "j < length (tool_calls r)" for i j
  proof -
    have "tool_call_id (results ! i) = map tool_call_id results ! i" using i by simp
    also have "\<dots> = Some (call_id (tool_calls r ! i))" using ids i len by simp
    finally have "(tool_call_id (results ! i) = Some (call_id (tool_calls r ! j))) =
        (map call_id (tool_calls r) ! i = map call_id (tool_calls r) ! j)"
      using i j len by simp
    also have "\<dots> = (i = j)"
      using nth_eq_iff_index_eq [OF d, of i j] i j len by simp
    finally show ?thesis .
  qed
  show ?thesis
    using res len ids once agent_round_dispatched [OF assms(1) res] by blast
qed

theorem round_appends_response_and_results_witness:
  "tool_calls asks_fda \<noteq> [] \<and>
   list_all (\<lambda>tc. \<not> isl (call_tool (scripted_env [asks_fda, final_answer]) ready_state tc))
     (tool_calls asks_fda) \<and>
   (\<exists>results.
      map (call_tool (scripted_env [asks_fda, final_answer]) ready_state) (tool_calls asks_fda) =
        map Inr results \<and>
      length results = length (tool_calls asks_fda) \<and>
      map tool_call_id results = map (Some \<circ> call_id) (tool_calls asks_fda) \<and>
      (\<forall>i < length results. \<forall>j < length (tool_calls asks_fda).
         (tool_call_id (results ! i) = Some (call_id (tool_calls asks_fda ! j))) = (i = j)) \<and>
      agent_round (scripted_env [asks_fda, final_answer]) ready_state [HumanMessage ''hi''] asks_fda
          [CallModelTask [HumanMessage ''hi''] (Inr asks_fda)] =
        (let messages1 = [HumanMessage ''hi''] @ AIMessage asks_fda # results;
             next_response = call_model (scripted_env [asks_fda, final_answer]) ready_state messages1;
             tr2 = [CallModelTask [HumanMessage ''hi''] (Inr asks_fda)] @
                   map2 CallToolTask (tool_calls asks_fda) (map Inr results) @
                   [CallModelTask messages1 next_response]
         in case next_response of
              Inl e \<Rightarrow> Inl \<lparr>outcome = Inl e, history = messages1, trace = tr2\<rparr>
            | Inr r1 \<Rightarrow> Inr (messages1, r1, tr2)))"
proof -
  have a: "tool_calls asks_fda \<noteq> []" by (simp add: asks_fda_def)
  have b: "list_all (\<lambda>tc. \<not> isl (call_tool (scripted_env [asks_fda, final_answer]) ready_state tc))
     (tool_calls asks_fda)"
    by (simp add: asks_fda_def call_tool_fda)
  have c: "distinct (map call_id (tool_calls asks_fda))" by (simp add: asks_fda_def)
  show ?thesis
    using round_appends_response_and_results [OF a b,
        of "[HumanMessage ''hi'']" "[CallModelTask [HumanMessage ''hi''] (Inr asks_fda)]"] a b c
    by blast
qed


text \<open>
  The claim without that condition fails: a response that requests one call of a tool that
  is not registered produces no tool result, the history stays as it was and the model is
  not invoked again.
\<close>

theorem unregistered_tool_round_has_no_results:
  "length (tool_calls asks_bogus) = 1 \<and>
   agent_round (scripted_env [asks_bogus, final_answer]) ready_state [HumanMessage ''hi''] asks_bogus
     [CallModelTask [HumanMessage ''hi''] (Inr asks_bogus)] =
   Inl \<lparr>outcome = Inl (KeyError ''weather_tool''),
        history = [HumanMessage ''hi''],
        trace = [CallModelTask [HumanMessage ''hi''] (Inr asks_bogus),
                 CallToolTask bogus_call (Inl (KeyError ''weather_tool''))]\<rparr>"
  by (simp add: agent_round_def Let_def asks_bogus_def call_tool_bogus)

text \<open>
  Claim C5. When the callable under a registered tool raises, the dispatch returns a tool
  result whose text starts with "Error" and carries the request's identifier; if the other
  dispatches of the batch return too, the round goes on to invoke the model on the history
  extended with the response and the results, that text among them.
\<close>

theorem tool_failure_is_contained:
  assumes batch: "tc \<in> set (tool_calls r)"
    and raises: "raising_call E st tc"
    and others: "list_all (\<lambda>c. c = tc \<or> \<not> isl (call_tool E st c)) (tool_calls r)"
  shows "\<exists>s results.
           call_tool E st tc = Inr (ToolMessage s (call_id tc)) \<and> prefix ''Error'' s \<and>
           map (call_tool E st) (tool_calls r) = map Inr results \<and>
           ToolMessage s (call_id tc) \<in> set results \<and>
           agent_round E st messages r tr =
             (let messages1 = messages @ AIMessage r # results;
                  next_response = call_model E st messages1;
                  tr2 = tr @ map2 CallToolTask (tool_calls r) (map Inr results) @
                        [CallModelTask messages1 next_response]
              in case next_response of
                   Inl e \<Rightarrow> Inl \<lparr>outcome = Inl e, history = messages1, trace = tr2\<rparr>
                 | Inr r1 \<Rightarrow> Inr (messages1, r1, tr2))"
proof -
  obtain s where s: "call_tool E st tc = Inr (ToolMessage s (call_id tc))" and err: "prefix ''Error'' s"
    using raising_call_returns_error_text [OF raises] by blast
  have "list_all (\<lambda>c. \<not> isl (call_tool E st c)) (tool_calls r)"
    using others s by (auto simp: list_all_iff)
  then obtain results where res: "map (call_tool E st) (tool_calls r) = map Inr results"
    using all_returned by blast
  have "Inr (ToolMessage s (call_id tc)) \<in> set (map (call_tool E st) (tool_calls r))"
    using batch s by force
  then have mem: "ToolMessage s (call_id tc) \<in> set results"
    using res by auto
  have ne: "tool_calls r \<noteq> []" using batch by auto
  show ?thesis
    using s err res mem agent_round_dispatched [OF ne res] by blast
qed

theorem tool_failure_is_contained_witness:
  "fda_call \<in> set (tool_calls asks_fda) \<and>
   raising_call (scripted_env [asks_fda, final_answer]) ready_state fda_call \<and>
   list_all (\<lambda>c. c = fda_call \<or> \<not> isl (call_tool (scripted_env [asks_fda, final_answer]) ready_state c))
     (tool_calls asks_fda) \<and>
   call_tool (scripted_env [asks_fda, final_answer]) ready_state fda_call =
     Inr (ToolMessage ''Error retrieving FDA data: connection refused'' ''call_1'') \<and>
   agent_round (scripted_env [asks_fda, final_answer]) ready_state [HumanMessage ''hi''] asks_fda
     [CallModelTask [HumanMessage ''hi''] (Inr asks_fda)] =
     Inr (fda_history, final_answer, fda_trace) \<and>
   (\<exists>s results.
      call_tool (scripted_env [asks_fda, final_answer]) ready_state fda_call =
        Inr (ToolMessage s (call_id fda_call)) \<and> prefix ''Error'' s \<and>
      map (call_tool (scripted_env [asks_fda, final_answer]) ready_state) (tool_calls asks_fda) =
        map Inr results \<and>
      ToolMessage s (call_id fda_call) \<in> set results)"
proof -
  have a: "fda_call \<in> set (tool_calls asks_fda)" by (simp add: asks_fda_def)
  have b: "raising_call (scripted_env [asks_fda, final_answer]) ready_state fda_call"
    by (simp add: raising_call_def ready_state_fields fda_call_def scripted_env_def
        get_adverse_events_def bind_exn_def)
  have c: "list_all (\<lambda>c. c = fda_call \<or>
        \<not> isl (call_tool (scripted_env [asks_fda, final_answer]) ready_state c)) (tool_calls asks_fda)"
    by (simp add: asks_fda_def)
  show ?thesis
    using tool_failure_is_contained [OF a b c] a b c call_tool_fda fda_round
    by blast
qed

text \<open>
  Claim C4, as the code has it. A request for a name that is absent from the (non-empty)
  registry makes \<open>call_tool\<close> raise \<open>KeyError\<close>; nothing in the loop handles it, so
  the run ends with an exception, the first of the batch, with the history as it was and
  no further round.
\<close>

theorem unregistered_tool_aborts_turn:
  assumes registry: "tools_by_name st \<noteq> []"
    and unknown: "map_of (tools_by_name st) (name tc) = None"
    and batch: "tc \<in> set (tool_calls r)"
  shows "call_tool E st tc = Inl (KeyError (name tc)) \<and>
         (\<exists>e. future_results (map (call_tool E st) (tool_calls r)) = Inl e \<and>
              (tool_calls r = [tc] \<longrightarrow> e = KeyError (name tc)) \<and>
              agent_loop E st messages r tr =
                Some \<lparr>outcome = Inl e, history = messages,
                      trace = tr @ map2 CallToolTask (tool_calls r)
                                     (map (call_tool E st) (tool_calls r))\<rparr>)"
proof -
  have raised: "call_tool E st tc = Inl (KeyError (name tc))"
    using registry unknown by (simp add: call_tool_def)
  then have "Inl (KeyError (name tc)) \<in> set (map (call_tool E st) (tool_calls r))"
    using batch by force
  then obtain e where e: "future_results (map (call_tool E st) (tool_calls r)) = Inl e"
    using future_results_raised by blast
  have single: "e = KeyError (name tc)" if "tool_calls r = [tc]"
    using e that raised by simp
  have ne: "tool_calls r \<noteq> []" using batch by auto
  show ?thesis
    using raised e single loop_aborts_on_raised_future [OF ne e] by blast
qed

theorem unregistered_tool_aborts_turn_witness:
  "tools_by_name ready_state \<noteq> [] \<and>
   map_of (tools_by_name ready_state) (name bogus_call) = None \<and>
   bogus_call \<in> set (tool_calls asks_bogus) \<and>
   call_tool (scripted_env [asks_bogus, final_answer]) ready_state bogus_call =
     Inl (KeyError (name bogus_call)) \<and>
   (\<exists>e. future_results (map (call_tool (scripted_env [asks_bogus, final_answer]) ready_state)
            (tool_calls asks_bogus)) = Inl e \<and>
        agent_loop (scripted_env [asks_bogus, final_answer]) ready_state [HumanMessage ''hi'']
            asks_bogus [CallModelTask [HumanMessage ''hi''] (Inr asks_bogus)] =
          Some \<lparr>outcome = Inl e, history = [HumanMessage ''hi''],
                trace = [CallModelTask [HumanMessage ''hi''] (Inr asks_bogus)] @
                        map2 CallToolTask (tool_calls asks_bogus)
                          (map (call_tool (scripted_env [asks_bogus, final_answer]) ready_state)
                             (tool_calls asks_bogus))\<rparr>)"
proof -
  have a: "tools_by_name ready_state \<noteq> []" by (simp add: ready_state_fields)
  have b: "map_of (tools_by_name ready_state) (name bogus_call) = None"
    by (simp add: ready_state_fields bogus_call_def)
  have c: "bogus_call \<in> set (tool_calls asks_bogus)" by (simp add: asks_bogus_def)
  show ?thesis
    using unregistered_tool_aborts_turn [OF a b c] a b c by blast
qed

text \<open>
  At the caller this is an aborted turn: the model would have answered in the next round,
  and \<open>run_agent\<close> returns the text of its outermost handler instead.
\<close>

theorem unregistered_tool_ends_run_agent:
  "run_agent (scripted_env [asks_bogus, final_answer]) ready_state ''hi'' None None None None =
     Some \<lparr>returned = ''Error running agent: '' @ [CHR 0x27] @ ''weather_tool'' @ [CHR 0x27],
           final_state = ready_state,
           tasks = [CallModelTask [HumanMessage ''hi''] (Inr asks_bogus),
                    CallToolTask bogus_call (Inl (KeyError ''weather_tool''))]\<rparr>"
  by (simp add: run_agent_initialized ready_state_fields invoke_agent_def agent_def call_model_ready
      Let_def agent_loop_done agent_round_def asks_bogus_def call_tool_bogus error_running_def
      repr_weather_tool)

section \<open>Configuration and setup\<close>

text \<open>
  Claim C6. Called while the agent is not initialized and with one of the four parameters
  missing (absent or empty), \<open>run_agent\<close> returns the configuration-required text as
  its value, leaves the module's state as it was, and starts no task: neither the model nor
  a tool is invoked, whatever the environment.
\<close>

theorem run_agent_requires_configuration:
  assumes "\<not> initialized st"
    and "\<not> list_all truthy [openai_api_key, neo4j_uri, neo4j_username, neo4j_password]"
  shows "run_agent E st question openai_api_key neo4j_uri neo4j_username neo4j_password =
           Some \<lparr>returned = ''Error: Agent not initialized. Please provide all configuration parameters.'',
                 final_state = st, tasks = []\<rparr>"
  using assms by (auto simp: run_agent_def config_required_def)

theorem run_agent_requires_configuration_witness:
  "\<not> initialized initial_state \<and>
   \<not> list_all truthy [Some ''sk-test'', Some ''bolt://localhost:7687'', Some ''neo4j'', None] \<and>
   run_agent (scripted_env [final_answer]) initial_state ''hi''
       (Some ''sk-test'') (Some ''bolt://localhost:7687'') (Some ''neo4j'') None =
     Some \<lparr>returned = ''Error: Agent not initialized. Please provide all configuration parameters.'',
           final_state = initial_state, tasks = []\<rparr>"
proof -
  have a: "\<not> initialized initial_state" by (simp add: initial_state_def)
  have b: "\<not> list_all truthy [Some ''sk-test'', Some ''bolt://localhost:7687'', Some ''neo4j'', None]"
    by simp
  show ?thesis
    using run_agent_requires_configuration [OF a b, of "scripted_env [final_answer]" "''hi''"] a b
    by simp
qed

lemma initialize_completed:
  "initialize_agent_with_config E st k u n p = (None, st1) \<Longrightarrow> initialized st1"
  by (auto simp: initialize_agent_with_config_def and_then_def setenv_def Let_def
      split: if_splits sum.splits)

lemma initialize_when_initialized:
  "initialized st \<Longrightarrow> initialize_agent_with_config E st k u n p = (None, st)"
  by (simp add: initialize_agent_with_config_def)

text \<open>
  Claim C7. After a first call of the setup that completed, a second call, with the same
  or with other arguments and whatever the outside world has become, completes and returns
  the state unchanged: environment variables, tool instances, model, tool list, registry
  and flag.
\<close>

theorem initialize_twice_is_noop:
  assumes "initialize_agent_with_config E1 st k1 u1 n1 p1 = (None, st1)"
  shows "initialize_agent_with_config E2 st1 k2 u2 n2 p2 = (None, st1)"
  using assms by (simp add: initialize_completed initialize_when_initialized)

theorem initialize_twice_is_noop_witness:
  "initialize_agent_with_config (scripted_env []) initial_state
       ''sk-test'' ''bolt://localhost:7687'' ''neo4j'' ''secret'' = (None, ready_state) \<and>
   initialize_agent_with_config (scripted_env [final_answer]) ready_state
       ''sk-other'' ''bolt://elsewhere:7687'' ''admin'' ''changed'' = (None, ready_state)"
  using initialize_twice_is_noop [OF ready_setup] ready_setup by simp

lemma connect_failed_no_graph:
  "\<not> snd (connect E t) \<Longrightarrow> graph t = None \<Longrightarrow> graph (fst (connect E t)) = None"
  by (auto simp: connect_def Let_def split: sum.splits)

lemma connect_keeps_chain: "qa_chain (fst (connect E t)) = qa_chain t"
  by (auto simp: connect_def Let_def split: sum.splits)

lemma initialize_qa_chain_no_graph:
  "graph t = None \<Longrightarrow> initialize_qa_chain E getenv t key = (t, False)"
  by (simp add: initialize_qa_chain_def)

lemma PDFTool_init_no_store: "PDFTool_init E getenv = Inr p0 \<Longrightarrow> vector_store p0 = None"
  by (auto simp: PDFTool_init_def bind_exn_def split: sum.splits)

text \<open>The state that the setup builds when none of its unguarded statements raises.\<close>

lemma initialize_completes:
  assumes fresh: "\<not> initialized st"
    and no_nul: "list_all (\<lambda>v. CHR 0x00 \<notin> set v) [k, u, n, p]"
    and getenv: "getenv = configured_environ (environ st) k u n p"
    and pdf_ctor: "PDFTool_init E getenv = Inr p0"
    and model_ctor: "new_ChatOpenAI E ''gpt-4'' 0 (Some k) = Inr m"
  shows "initialize_agent_with_config E st k u n p =
     (None, st\<lparr>environ := getenv,
               neo4j_tool := Some (fst (initialize_qa_chain E getenv
                                         (fst (connect E (Neo4jTool_init getenv))) None)),
               pdf_tool := Some (case init_vector_store E p0 of Inr p1 \<Rightarrow> p1 | Inl e \<Rightarrow> p0),
               model := Some m,
               tools := [FdaAdverseEventsTool, Neo4jQueryTool, PdfSearchTool],
               tools_by_name := map (\<lambda>t. (tool_name t, t))
                                  [FdaAdverseEventsTool, Neo4jQueryTool, PdfSearchTool],
               initialized := True\<rparr>)"
proof -
  have env4: "(environ st)(''OPENAI_API_KEY'' \<mapsto> k, ''NEO4J_URI'' \<mapsto> u,
      ''NEO4J_USERNAME'' \<mapsto> n, ''NEO4J_PASSWORD'' \<mapsto> p) = getenv"
    using getenv by (simp add: configured_environ_def)
  show ?thesis
    using fresh no_nul pdf_ctor model_ctor
    by (simp add: initialize_agent_with_config_def and_then_def setenv_def Let_def env4)
qed

text \<open>
  Claim C10, as the code has it. Let the statements of the setup that stand outside its
  \<open>try\<close> blocks not raise: no parameter holds a NUL character, and the constructors of
  the document tool and of the model return. Then setup from an uninitialized state ends
  with the agent marked initialized and the model in place, so a following turn runs the
  agent. When the vector store could not be built (no PDF file, or building it raised),
  the document tool answers every question with its "not initialized" text; when the
  connection to the graph database failed, the graph tool answers with "QA chain not
  initialized".
\<close>

theorem failed_setup_still_initializes:
  assumes fresh: "\<not> initialized st"
    and no_nul: "list_all (\<lambda>v. CHR 0x00 \<notin> set v) [k, u, n, p]"
    and getenv: "getenv = configured_environ (environ st) k u n p"
    and pdf_ctor: "PDFTool_init E getenv = Inr p0"
    and model_ctor: "new_ChatOpenAI E ''gpt-4'' 0 (Some k) = Inr m"
  shows "\<exists>st1. initialize_agent_with_config E st k u n p = (None, st1) \<and>
         initialized st1 \<and>
         run_agent E2 st1 q ko uo no po = invoke_agent E2 st1 q \<and>
         call_model E2 st1 messages =
           chat_invoke E2 m [FdaAdverseEventsTool, Neo4jQueryTool, PdfSearchTool]
             (SystemMessage system_prompt # messages) \<and>
         (isl (init_vector_store E p0) \<longrightarrow>
            pdf_search_tool E2 st1 question =
              ''Error: PDF vector store not initialized. The PDF file may not have been loaded successfully during initialization.'') \<and>
         (\<not> snd (connect E (Neo4jTool_init getenv)) \<longrightarrow>
            neo4j_query_tool E2 st1 question = ''Error: QA chain not initialized'')"
proof -
  define st1 where "st1 = snd (initialize_agent_with_config E st k u n p)"
  note built = initialize_completes [OF fresh no_nul getenv pdf_ctor model_ctor]
  have completed: "initialize_agent_with_config E st k u n p = (None, st1)"
    using built by (simp add: st1_def)
  have i: "initialized st1" using built by (simp add: st1_def)
  have r: "run_agent E2 st1 q ko uo no po = invoke_agent E2 st1 q"
    using i by (simp add: run_agent_def)
  have c: "call_model E2 st1 messages =
           chat_invoke E2 m [FdaAdverseEventsTool, Neo4jQueryTool, PdfSearchTool]
             (SystemMessage system_prompt # messages)"
    using built by (simp add: st1_def call_model_def)
  have pdf: "pdf_search_tool E2 st1 question =
      ''Error: PDF vector store not initialized. The PDF file may not have been loaded successfully during initialization.''"
    if "isl (init_vector_store E p0)"
  proof -
    have "pdf_tool st1 = Some p0"
      using that built by (auto simp: st1_def isl_def)
    then show ?thesis
      using PDFTool_init_no_store [OF pdf_ctor] by (simp add: pdf_search_tool_def)
  qed
  have neo: "neo4j_query_tool E2 st1 question = ''Error: QA chain not initialized''"
    if "\<not> snd (connect E (Neo4jTool_init getenv))"
  proof -
    let ?n1 = "fst (connect E (Neo4jTool_init getenv))"
    have g: "graph ?n1 = None"
      using that by (rule connect_failed_no_graph) (simp add: Neo4jTool_init_def)
    have ch: "qa_chain ?n1 = None"
      by (simp add: connect_keeps_chain Neo4jTool_init_def)
    have "neo4j_tool st1 = Some ?n1"
      using built g by (simp add: st1_def initialize_qa_chain_no_graph)
    then show ?thesis using ch by (simp add: neo4j_query_tool_def ask_question_def)
  qed
  show ?thesis using completed i r c pdf neo by blast
qed

theorem failed_setup_still_initializes_witness:
  "\<not> initialized initial_state \<and>
   list_all (\<lambda>v. CHR 0x00 \<notin> set v) [''sk-test'', ''bolt://localhost:7687'', ''neo4j'', ''secret''] \<and>
   PDFTool_init (scripted_env [])
       (configured_environ (environ initial_state)
          ''sk-test'' ''bolt://localhost:7687'' ''neo4j'' ''secret'') =
     Inr \<lparr>vector_store = None,
          embeddings = Some \<lparr>embedding_model = ''text-embedding-3-large'',
                             embedding_api_key = Some ''sk-test''\<rparr>,
          llm = Some \<lparr>model_name = ''gpt-4'', temperature = 0, api_key = Some ''sk-test''\<rparr>\<rparr> \<and>
   new_ChatOpenAI (scripted_env []) ''gpt-4'' 0 (Some ''sk-test'') =
     Inr \<lparr>model_name = ''gpt-4'', temperature = 0, api_key = Some ''sk-test''\<rparr> \<and>
   isl (init_vector_store (scripted_env [])
          \<lparr>vector_store = None,
           embeddings = Some \<lparr>embedding_model = ''text-embedding-3-large'',
                              embedding_api_key = Some ''sk-test''\<rparr>,
           llm = Some \<lparr>model_name = ''gpt-4'', temperature = 0, api_key = Some ''sk-test''\<rparr>\<rparr>) \<and>
   \<not> snd (connect (scripted_env [])
          (Neo4jTool_init (configured_environ (environ initial_state)
             ''sk-test'' ''bolt://localhost:7687'' ''neo4j'' ''secret''))) \<and>
   (\<exists>st1. initialize_agent_with_config (scripted_env []) initial_state
            ''sk-test'' ''bolt://localhost:7687'' ''neo4j'' ''secret'' = (None, st1) \<and>
          initialized st1 \<and>
          run_agent (scripted_env [final_answer]) st1 ''hi'' None None None None =
            invoke_agent (scripted_env [final_answer]) st1 ''hi'' \<and>
          pdf_search_tool (scripted_env [final_answer]) st1 ''What does the report say?'' =
            ''Error: PDF vector store not initialized. The PDF file may not have been loaded successfully during initialization.'' \<and>
          neo4j_query_tool (scripted_env [final_answer]) st1 ''What does the report say?'' =
            ''Error: QA chain not initialized'')"
proof -
  let ?getenv = "configured_environ (environ initial_state)
      ''sk-test'' ''bolt://localhost:7687'' ''neo4j'' ''secret''"
  let ?p0 = "\<lparr>vector_store = None,
          embeddings = Some \<lparr>embedding_model = ''text-embedding-3-large'',
                             embedding_api_key = Some ''sk-test''\<rparr>,
          llm = Some \<lparr>model_name = ''gpt-4'', temperature = 0, api_key = Some ''sk-test''\<rparr>\<rparr>"
  have fresh: "\<not> initialized initial_state" by (simp add: initial_state_def)
  have no_nul: "list_all (\<lambda>v. CHR 0x00 \<notin> set v)
      [''sk-test'', ''bolt://localhost:7687'', ''neo4j'', ''secret'']"
    by simp
  have pdf_ctor: "PDFTool_init (scripted_env []) ?getenv = Inr ?p0"
    by (simp add: PDFTool_init_def new_OpenAIEmbeddings_def new_ChatOpenAI_def bind_exn_def
        scripted_env_def configured_environ_def)
  have model_ctor: "new_ChatOpenAI (scripted_env []) ''gpt-4'' 0 (Some ''sk-test'') =
      Inr \<lparr>model_name = ''gpt-4'', temperature = 0, api_key = Some ''sk-test''\<rparr>"
    by (simp add: new_ChatOpenAI_def scripted_env_def)
  have pdf: "isl (init_vector_store (scripted_env []) ?p0)"
    by (simp add: init_vector_store_def possible_paths_def scripted_env_def)
  have neo: "\<not> snd (connect (scripted_env []) (Neo4jTool_init ?getenv))"
    by (simp add: connect_def scripted_env_def)
  show ?thesis
    using failed_setup_still_initializes [OF fresh no_nul refl pdf_ctor model_ctor,
        of "scripted_env [final_answer]" "''hi''" None None None None _ "''What does the report say?''"]
      fresh no_nul pdf_ctor model_ctor pdf neo
    by blast
qed

text \<open>
  Without the condition the claim fails: with four non-empty parameters, one of them
  holding a NUL character, the second assignment to the environment raises, the flag
  stays unset, and \<open>run_agent\<close> returns the text of its handler without starting the
  agent.
\<close>

theorem setup_raises_on_nul_parameter:
  "list_all truthy [Some ''sk-test'', Some nul_uri, Some ''neo4j'', Some ''secret''] \<and>
   fst (initialize_agent_with_config (scripted_env [final_answer]) initial_state
          ''sk-test'' nul_uri ''neo4j'' ''secret'') = Some (ValueError ''embedded null byte'') \<and>
   \<not> initialized (snd (initialize_agent_with_config (scripted_env [final_answer]) initial_state
          ''sk-test'' nul_uri ''neo4j'' ''secret'')) \<and>
   map_option returned
     (run_agent (scripted_env [final_answer]) initial_state ''hi''
        (Some ''sk-test'') (Some nul_uri) (Some ''neo4j'') (Some ''secret'')) =
     Some ''Error running agent: embedded null byte'' \<and>
   map_option tasks
     (run_agent (scripted_env [final_answer]) initial_state ''hi''
        (Some ''sk-test'') (Some nul_uri) (Some ''neo4j'') (Some ''secret'')) = Some []"
  by (simp add: run_agent_def initialize_agent_with_config_def and_then_def setenv_def
      initial_state_def nul_uri_def error_running_def)

end
